theory Spec2Isabelle
  imports Main
begin

section \<open>Values, errors and the outside world\<close>

text \<open>
  Python values as far as this program handles them: what \<open>json.loads\<close> yields, what a
  session document holds and what the advisor keeps in \<open>context\<close> and \<open>options\<close>.
  A dict is an association list with distinct keys, in insertion order.
\<close>

datatype pyobj =
    PNone
  | PBool bool
  | PInt int
  | PStr string
  | PList "pyobj list"
  | PDict "(string \<times> pyobj) list"

text \<open>Every exception the modelled code can meet is a value.\<close>

datatype error =
    JSONDecodeError
  | TypeError
  | KeyError string
  | StopIteration
  | External string

text \<open>
  A tool is called as \<open>f(**kwargs)\<close>: it receives the keyword arguments and either raises
  or returns its raw text.
\<close>

type_synonym callable = "(string \<times> pyobj) list \<Rightarrow> error + string"

text \<open>What a tool descriptor dict holds under its keys: the callable, or plain data.\<close>

datatype dval = DTool callable | DVal pyobj

type_synonym descriptor = "(string \<times> dval) list"

text \<open>
  The object store for descriptor dicts: \<open>cells\<close> gives the dict at an address, every
  address below \<open>next_free\<close> is allocated.
\<close>

type_synonym addr = nat

record heap =
  cells :: "addr \<Rightarrow> descriptor"
  next_free :: addr

definition alloc :: "descriptor \<Rightarrow> heap \<Rightarrow> addr \<times> heap" where
  "alloc d h = (next_free h, h\<lparr>cells := (cells h)(next_free h := d), next_free := Suc (next_free h)\<rparr>)"

text \<open>\<open>d.copy()\<close> of the dict at address \<open>a\<close>: a new dict object with the same items.\<close>

definition dict_copy :: "addr \<Rightarrow> heap \<Rightarrow> addr \<times> heap" where
  "dict_copy a h = alloc (cells h a) h"

text \<open>\<open>list(map(lambda t: t.copy(), tools))\<close>\<close>

fun copy_all :: "addr list \<Rightarrow> heap \<Rightarrow> addr list \<times> heap" where
  "copy_all [] h = ([], h)"
| "copy_all (a # as) h =
     (let (c, h1) = dict_copy a h; (cs, h2) = copy_all as h1 in (c # cs, h2))"

definition dict_get :: "(string \<times> 'v) list \<Rightarrow> string \<Rightarrow> 'v option" where
  "dict_get d k = map_of d k"

definition dict_del :: "string \<Rightarrow> (string \<times> 'v) list \<Rightarrow> (string \<times> 'v) list" where
  "dict_del k d = filter (\<lambda>kv. fst kv \<noteq> k) d"

text \<open>\<open>d[k] = v\<close>: an existing key keeps its position, a new key goes last.\<close>

fun dict_set :: "string \<Rightarrow> 'v \<Rightarrow> (string \<times> 'v) list \<Rightarrow> (string \<times> 'v) list" where
  "dict_set k v [] = [(k, v)]"
| "dict_set k v ((k', v') # d) = (if k' = k then (k, v) # d else (k', v') # dict_set k v d)"

text \<open>\<open>d.pop(k)\<close> on the dict at address \<open>a\<close>: KeyError when the key is absent.\<close>

definition dict_pop :: "addr \<Rightarrow> string \<Rightarrow> heap \<Rightarrow> (error + dval) \<times> heap" where
  "dict_pop a k h =
     (case dict_get (cells h a) k of
        None \<Rightarrow> (Inl (KeyError k), h)
      | Some v \<Rightarrow> (Inr v, h\<lparr>cells := (cells h)(a := dict_del k (cells h a))\<rparr>))"

text \<open>
  \<open>tool['function']['name']\<close>: the outer lookup raises KeyError on a missing key; the inner
  subscript needs a dict (anything else is not subscriptable by a string) and raises
  KeyError on a missing key.
\<close>

definition schema_name :: "descriptor \<Rightarrow> error + pyobj" where
  "schema_name d =
     (case dict_get d ''function'' of
        None \<Rightarrow> Inl (KeyError ''function'')
      | Some (DVal (PDict f)) \<Rightarrow>
          (case dict_get f ''name'' of None \<Rightarrow> Inl (KeyError ''name'') | Some n \<Rightarrow> Inr n)
      | Some _ \<Rightarrow> Inl TypeError)"

text \<open>A dict key must be hashable: lists and dicts are not.\<close>

fun hashable :: "pyobj \<Rightarrow> bool" where
  "hashable (PList _) = False"
| "hashable (PDict _) = False"
| "hashable _ = True"

text \<open>
  Two keys of a Python dict are the same key when they are equal: \<open>True\<close> is the key
  \<open>1\<close> and \<open>False\<close> the key \<open>0\<close>. A key is stored under its integer in that case.
\<close>

fun dict_key :: "pyobj \<Rightarrow> pyobj" where
  "dict_key (PBool b) = PInt (if b then 1 else 0)"
| "dict_key k = k"

section \<open>The agent\<close>

record message =
  msg_role :: string
  msg_content :: string
  msg_tool_call_id :: "string option"

record agent =
  model :: string
  role :: "string option"
  goal :: "string option"
  backstory :: "string option"
  tools :: "descriptor list"
  messages :: "message list"
  available_functions :: "pyobj \<rightharpoonup> dval"

text \<open>
  The loop of \<open>Agent.__init__\<close> over the copies. In
  \<open>self.available_functions[tool['function']['name']] = tool.pop('tool')\<close> Python evaluates the
  right-hand side first, then the subscript. The table is a dict: an entry is stored
  under \<open>dict_key\<close> of the name.
\<close>

fun register_tools :: "addr list \<Rightarrow> (pyobj \<rightharpoonup> dval) \<Rightarrow> heap \<Rightarrow> (error + (pyobj \<rightharpoonup> dval)) \<times> heap" where
  "register_tools [] af h = (Inr af, h)"
| "register_tools (c # cs) af h =
     (case dict_pop c ''tool'' h of
        (Inl e, h1) \<Rightarrow> (Inl e, h1)
      | (Inr v, h1) \<Rightarrow>
          (case schema_name (cells h1 c) of
             Inl e \<Rightarrow> (Inl e, h1)
           | Inr n \<Rightarrow>
               if hashable n then register_tools cs (af(dict_key n \<mapsto> v)) h1
               else (Inl TypeError, h1)))"

text \<open>
  \<open>Agent.__init__\<close>. The caller passes the addresses of its descriptor dicts (\<open>None\<close> or an
  empty list give no tools). The copies are reachable only through the agent, so the agent
  record holds their final contents. The nested \<open>function\<close> dict is shared by the shallow
  copy and never written, so it is held by value.
\<close>

definition Agent_init ::
  "string option \<Rightarrow> string option \<Rightarrow> string option \<Rightarrow> addr list option \<Rightarrow> string \<Rightarrow> heap
     \<Rightarrow> (error + agent) \<times> heap" where
  "Agent_init r g b ts m h =
     (let (cs, h1) = (case ts of None \<Rightarrow> ([], h) | Some [] \<Rightarrow> ([], h) | Some as \<Rightarrow> copy_all as h) in
      case register_tools cs Map.empty h1 of
        (Inl e, h2) \<Rightarrow> (Inl e, h2)
      | (Inr af, h2) \<Rightarrow>
          (Inr \<lparr>model = m, role = r, goal = g, backstory = b, tools = map (cells h2) cs,
                messages = [], available_functions = af\<rparr>, h2))"

definition default_model :: string where
  "default_model = ''llama3-groq-70b-8192-tool-use-preview''"

text \<open>\<open>f"{x}"\<close> of an optional string, and the truth value of one.\<close>

fun fmt :: "string option \<Rightarrow> string" where
  "fmt None = ''None''"
| "fmt (Some s) = s"

fun nonempty :: "string option \<Rightarrow> bool" where
  "nonempty None = False"
| "nonempty (Some s) = (s \<noteq> [])"

definition system_prompt :: "agent \<Rightarrow> string" where
  "system_prompt ag =
     ''You are an AI agent with the role of '' @ fmt (role ag) @ ''.'' @ [CHR 0x0A]
     @ (if nonempty (goal ag) then ''Your goal is to '' @ fmt (goal ag) @ ''.'' @ [CHR 0x0A] else [])
     @ (if nonempty (backstory ag)
        then ''Here is some context about you: '' @ fmt (backstory ag) @ [CHR 0x0A] else [])
     @ ''Use the tools provided to assist the user with tasks and provide helpful responses.''"

definition create_system_prompt :: "agent \<Rightarrow> agent" where
  "create_system_prompt ag =
     ag\<lparr>messages := [\<lparr>msg_role = ''system'', msg_content = system_prompt ag, msg_tool_call_id = None\<rparr>]\<rparr>"

subsection \<open>The completion API\<close>

record tool_call =
  tc_id :: string
  tc_name :: string
  tc_arguments :: string

text \<open>\<open>response.choices[0].message\<close>: optional tool calls, optional content.\<close>

record api_message =
  tool_calls :: "tool_call list option"
  content :: "string option"

text \<open>A completion request; \<open>None\<close> is a parameter that was not passed.\<close>

record request =
  req_model :: string
  req_messages :: "message list"
  req_stream :: "bool option"
  req_tools :: "descriptor list option"
  req_tool_choice :: "string option"
  req_max_tokens :: "nat option"

text \<open>What a task does to the outside, in order.\<close>

datatype event = Completion request | Invoke string "(string \<times> pyobj) list"

text \<open>
  The remote API is a sequence of canned answers: each request takes the next one, which is
  a message or an exception of the client. A request with no answer left raises.
\<close>

type_synonym api = "(error + api_message) list"

fun create :: "api \<Rightarrow> (error + api_message) \<times> api" where
  "create [] = (Inl (External ''no response''), [])"
| "create (r # rs) = (r, rs)"

definition first_request :: "agent \<Rightarrow> request" where
  "first_request ag =
     \<lparr>req_model = model ag, req_messages = messages ag, req_stream = Some False,
      req_tools = Some (tools ag), req_tool_choice = Some ''auto'', req_max_tokens = Some 4096\<rparr>"

definition second_request :: "agent \<Rightarrow> request" where
  "second_request ag =
     \<lparr>req_model = model ag, req_messages = messages ag, req_stream = None,
      req_tools = None, req_tool_choice = None, req_max_tokens = None\<rparr>"

text \<open>The truth value of an object found in the callable table.\<close>

fun truthy :: "dval \<Rightarrow> bool" where
  "truthy (DTool f) = True"
| "truthy (DVal PNone) = False"
| "truthy (DVal (PBool b)) = b"
| "truthy (DVal (PInt i)) = (i \<noteq> 0)"
| "truthy (DVal (PStr s)) = (s \<noteq> [])"
| "truthy (DVal (PList xs)) = (xs \<noteq> [])"
| "truthy (DVal (PDict kv)) = (kv \<noteq> [])"

text \<open>
  The state of one run of \<open>task\<close>: the agent's message list, the answers the API still
  holds, and the events so far.
\<close>

record run =
  run_messages :: "message list"
  run_api :: api
  run_trace :: "event list"

text \<open>
  \<open>function_to_call(**function_args)\<close>: the arguments must be a mapping and the object
  callable, else TypeError before anything is invoked.
\<close>

definition call :: "dval \<Rightarrow> string \<Rightarrow> pyobj \<Rightarrow> run \<Rightarrow> (error + string) \<times> run" where
  "call f name args st =
     (case (f, args) of
        (DTool g, PDict kv) \<Rightarrow> (g kv, st\<lparr>run_trace := run_trace st @ [Invoke name kv]\<rparr>)
      | _ \<Rightarrow> (Inl TypeError, st))"

text \<open>
  The \<open>for tool_call in tool_calls\<close> loop. The arguments are decoded before the callable is
  tested, for registered and unregistered names alike. \<open>loads\<close> is \<open>json.loads\<close>: \<open>None\<close>
  is its JSONDecodeError.
\<close>

fun resolve ::
  "(string \<Rightarrow> pyobj option) \<Rightarrow> (pyobj \<rightharpoonup> dval) \<Rightarrow> tool_call list \<Rightarrow> run \<Rightarrow> error option \<times> run" where
  "resolve loads af [] st = (None, st)"
| "resolve loads af (tc # tcs) st =
     (let function_name = tc_name tc;
          function_to_call = af (PStr function_name) in
      case loads (tc_arguments tc) of
        None \<Rightarrow> (Some JSONDecodeError, st)
      | Some function_args \<Rightarrow>
          (case function_to_call of
             None \<Rightarrow> resolve loads af tcs st
           | Some f \<Rightarrow>
               if truthy f then
                 (case call f function_name function_args st of
                    (Inl e, st1) \<Rightarrow> (Some e, st1)
                  | (Inr function_response, st1) \<Rightarrow>
                      resolve loads af tcs
                        (st1\<lparr>run_messages := run_messages st1 @
                           [\<lparr>msg_role = ''tool'', msg_content = function_response,
                             msg_tool_call_id = Some (tc_id tc)\<rparr>]\<rparr>))
               else resolve loads af tcs st))"

text \<open>What \<open>task\<close> leaves behind: its result, the agent, the API and the events.\<close>

record outcome =
  result :: "error + pyobj"
  agent_after :: agent
  api_after :: api
  trace :: "event list"

definition finish :: "error + pyobj \<Rightarrow> agent \<Rightarrow> run \<Rightarrow> outcome" where
  "finish r ag st =
     \<lparr>result = r, agent_after = ag\<lparr>messages := run_messages st\<rparr>, api_after = run_api st,
      trace = run_trace st\<rparr>"

text \<open>Issue a completion request: log it and take the API's next answer.\<close>

definition complete :: "request \<Rightarrow> run \<Rightarrow> (error + api_message) \<times> run" where
  "complete rq st =
     (let (r, rest) = create (run_api st) in
      (r, st\<lparr>run_api := rest, run_trace := run_trace st @ [Completion rq]\<rparr>))"

text \<open>The text returned when no JSON was asked for: the content as it is.\<close>

fun text_result :: "string option \<Rightarrow> pyobj" where
  "text_result None = PNone"
| "text_result (Some s) = PStr s"

text \<open>\<open>json.loads(response)\<close> on the final content: \<open>None\<close> is not a string.\<close>

fun json_result :: "(string \<Rightarrow> pyobj option) \<Rightarrow> string option \<Rightarrow> error + pyobj" where
  "json_result loads None = Inl TypeError"
| "json_result loads (Some s) = (case loads s of None \<Rightarrow> Inl JSONDecodeError | Some v \<Rightarrow> Inr v)"

text \<open>\<open>if tool_calls:\<close> holds for a non-empty list.\<close>

fun calls_of :: "tool_call list option \<Rightarrow> tool_call list" where
  "calls_of None = []"
| "calls_of (Some tcs) = tcs"

definition user_message :: "string \<Rightarrow> bool \<Rightarrow> message" where
  "user_message description json_output =
     \<lparr>msg_role = ''user'',
      msg_content = description @
        (if json_output then [CHR 0x0A, CHR 0x0A] @ ''Please return JSON.'' else []),
      msg_tool_call_id = None\<rparr>"

text \<open>
  The head of \<open>Agent.task\<close>: the message list is rebuilt from the system prompt and the
  user message.
\<close>

definition prepare :: "agent \<Rightarrow> string \<Rightarrow> bool \<Rightarrow> agent" where
  "prepare ag0 description json_output =
     (let ag1 = create_system_prompt ag0 in
      ag1\<lparr>messages := messages ag1 @ [user_message description json_output]\<rparr>)"

text \<open>\<open>Agent.task\<close>.\<close>

definition task ::
  "(string \<Rightarrow> pyobj option) \<Rightarrow> agent \<Rightarrow> string \<Rightarrow> bool \<Rightarrow> api \<Rightarrow> outcome" where
  "task loads ag0 description json_output w =
     (let ag = prepare ag0 description json_output;
          st0 = \<lparr>run_messages = messages ag, run_api = w, run_trace = []\<rparr> in
      case complete (first_request ag) st0 of
        (Inl e, st1) \<Rightarrow> finish (Inl e) ag st1
      | (Inr response_message, st1) \<Rightarrow>
          (case resolve loads (available_functions ag) (calls_of (tool_calls response_message)) st1 of
             (Some e, st2) \<Rightarrow> finish (Inl e) ag st2
           | (None, st2) \<Rightarrow>
               (case complete (second_request (ag\<lparr>messages := run_messages st2\<rparr>)) st2 of
                  (Inl e, st3) \<Rightarrow> finish (Inl e) ag st3
                | (Inr second_response, st3) \<Rightarrow>
                    finish
                      (if json_output then json_result loads (content second_response)
                       else Inr (text_result (content second_response)))
                      ag st3)))"

section \<open>The search tools\<close>

text \<open>
  The outbound HTTP POST of \<open>requests\<close>: URL and form payload in, the response body out, or
  an exception of the transport.
\<close>

type_synonym http = "string \<Rightarrow> (string \<times> pyobj) list \<Rightarrow> error + string"

text \<open>
  Binding \<open>**kwargs\<close> to the parameters of a \<open>def\<close>: every keyword must name a parameter
  and every parameter without a default must be given, else TypeError.
\<close>

definition accepts :: "string list \<Rightarrow> string list \<Rightarrow> (string \<times> pyobj) list \<Rightarrow> bool" where
  "accepts required optional kv =
     (list_all (\<lambda>k. k \<in> set (required @ optional)) (map fst kv)
      \<and> list_all (\<lambda>k. k \<in> set (map fst kv)) required)"

definition arg :: "(string \<times> pyobj) list \<Rightarrow> string \<Rightarrow> pyobj \<Rightarrow> pyobj" where
  "arg kv k dflt = (case dict_get kv k of None \<Rightarrow> dflt | Some v \<Rightarrow> v)"

definition map_search_api :: "http \<Rightarrow> callable" where
  "map_search_api post kv =
     (if accepts [''term'', ''lat'', ''lng''] [] kv then
        post ''https://app.radeai.com/tools/neshan/search/''
          [(''term'', arg kv ''term'' PNone), (''lat'', arg kv ''lat'' PNone),
           (''lng'', arg kv ''lng'' PNone)]
      else Inl TypeError)"

definition google_search_api :: "http \<Rightarrow> callable" where
  "google_search_api post kv =
     (if accepts [''query''] [''include_content''] kv then
        post ''https://app.radeai.com/tools/google/search/''
          [(''query'', arg kv ''query'' PNone),
           (''include_content'', arg kv ''include_content'' (PBool True))]
      else Inl TypeError)"

section \<open>The session\<close>

text \<open>
  The document store behind \<open>MongoDBHandler.connect\<close>: entering the connection either
  raises (\<open>failure\<close>) or gives the \<open>sessions\<close> collection, a list of documents.
\<close>

type_synonym document = "(string \<times> pyobj) list"

record db =
  failure :: "error option"
  sessions :: "document list"

text \<open>
  A query document \<open>{"session_id": v}\<close> matches a document whose field equals \<open>v\<close> or is an
  array that contains \<open>v\<close>.
\<close>

definition matches :: "pyobj \<Rightarrow> document \<Rightarrow> bool" where
  "matches v d =
     (case dict_get d ''session_id'' of
        None \<Rightarrow> False
      | Some (PList xs) \<Rightarrow> PList xs = v \<or> v \<in> set xs
      | Some x \<Rightarrow> x = v)"

text \<open>\<open>next(cursor)\<close>: the first match, StopIteration when there is none.\<close>

definition find_next :: "pyobj \<Rightarrow> document list \<Rightarrow> error + document" where
  "find_next v docs = (case filter (matches v) docs of [] \<Rightarrow> Inl StopIteration | d # _ \<Rightarrow> Inr d)"

text \<open>
  \<open>insert_one\<close> gives a document without \<open>_id\<close> one of the driver's making, in the caller's
  dict too, and stores it.
\<close>

definition insert_one :: "pyobj \<Rightarrow> document \<Rightarrow> document list \<Rightarrow> document \<times> document list" where
  "insert_one oid d docs =
     (let d' = (case dict_get d ''_id'' of None \<Rightarrow> dict_set ''_id'' oid d | Some _ \<Rightarrow> d)
      in (d', docs @ [d']))"

text \<open>
  The driver's \<open>update_one(filter, update)\<close>. \<open>update\<close> has no default: a call without it
  is a TypeError of the call itself. With it, the \<open>$set\<close> fields are written to the first
  match and the driver's result object is returned (here its two counters).
\<close>

fun set_fields :: "document \<Rightarrow> document \<Rightarrow> document" where
  "set_fields [] d = d"
| "set_fields ((k, v) # kvs) d = set_fields kvs (dict_set k v d)"

fun update_first :: "(document \<Rightarrow> bool) \<Rightarrow> (document \<Rightarrow> document) \<Rightarrow> document list \<Rightarrow> document list" where
  "update_first P f [] = []"
| "update_first P f (d # ds) = (if P d then f d # ds else d # update_first P f ds)"

definition update_one ::
  "document \<Rightarrow> document option \<Rightarrow> document list \<Rightarrow> (error + pyobj) \<times> document list" where
  "update_one flt upd docs =
     (case upd of
        None \<Rightarrow> (Inl TypeError, docs)
      | Some u \<Rightarrow>
          (case (dict_get flt ''session_id'', dict_get u ''$set'') of
             (Some v, Some (PDict fs)) \<Rightarrow>
               (Inr (PDict [(''matched_count'', PInt (if filter (matches v) docs = [] then 0 else 1))]),
                update_first (matches v) (set_fields fs) docs)
           | _ \<Rightarrow> (Inl (External ''unsupported update''), docs)))"

text \<open>The \<open>Session\<close> object: its identifier and \<open>self.session\<close>.\<close>

record session =
  session_id :: string
  session_doc :: pyobj

text \<open>
  \<open>Session.__init__\<close>. \<open>uuid\<close> is the text of the \<open>uuid.uuid4()\<close> drawn when no identifier
  is given, \<open>oid\<close> the \<open>_id\<close> the driver makes for an inserted document.
\<close>

definition Session_init :: "string \<Rightarrow> pyobj \<Rightarrow> string option \<Rightarrow> db \<Rightarrow> (error + session) \<times> db" where
  "Session_init uuid oid sid d =
     (let the_id = (case sid of Some i \<Rightarrow> i | None \<Rightarrow> uuid) in
      case failure d of
        Some e \<Rightarrow> (Inl e, d)
      | None \<Rightarrow>
          (case sid of
             Some _ \<Rightarrow>
               (case find_next (PStr the_id) (sessions d) of
                  Inl e \<Rightarrow> (Inl e, d)
                | Inr doc \<Rightarrow> (Inr \<lparr>session_id = the_id, session_doc = PDict doc\<rparr>, d))
           | None \<Rightarrow>
               (let (doc, docs) =
                      insert_one oid
                        [(''session_id'', PStr the_id), (''context'', PList []),
                         (''options'', PList []), (''plan'', PNone)]
                        (sessions d)
                in (Inr \<lparr>session_id = the_id, session_doc = PDict doc\<rparr>, d\<lparr>sessions := docs\<rparr>))))"

text \<open>
  \<open>Session.update\<close>: \<open>update_one\<close> is called with the filter alone; its result would
  become \<open>self.session\<close>.
\<close>

definition Session_update :: "session \<Rightarrow> db \<Rightarrow> (error + unit) \<times> session \<times> db" where
  "Session_update s d =
     (case failure d of
        Some e \<Rightarrow> (Inl e, s, d)
      | None \<Rightarrow>
          (case update_one [(''session_id'', PStr (session_id s))] None (sessions d) of
             (Inl e, docs) \<Rightarrow> (Inl e, s, d\<lparr>sessions := docs\<rparr>)
           | (Inr r, docs) \<Rightarrow> (Inr (), s\<lparr>session_doc := r\<rparr>, d\<lparr>sessions := docs\<rparr>)))"

text \<open>
  \<open>Session.__getitem__\<close>: \<open>self.session.get(item)\<close> is evaluated and dropped; the method
  has no \<open>return\<close>, so its value is \<open>None\<close>. Only a dict has \<open>get\<close>.
\<close>

definition Session_getitem :: "session \<Rightarrow> string \<Rightarrow> error + pyobj" where
  "Session_getitem s item =
     (case session_doc s of
        PDict doc \<Rightarrow> (let unused = dict_get doc item in Inr PNone)
      | _ \<Rightarrow> Inl (External ''AttributeError''))"

section \<open>The advisor\<close>

text \<open>
  The fixed text of the three task templates of \<open>advisor.py\<close> is kept as named pieces
  between the interpolated values, together with the two library functions applied to it:
  \<open>py_str\<close> formats a value inside an f-string, \<open>dedent\<close> is \<open>textwrap.dedent\<close>.
\<close>

record prompts =
  py_str :: "pyobj \<Rightarrow> string"
  dedent :: "string \<Rightarrow> string"
  analyze_1 :: string
  analyze_2 :: string
  analyze_3 :: string
  analyze_4 :: string
  recommend_1 :: string
  recommend_2 :: string
  plan_1 :: string
  plan_2 :: string
  plan_3 :: string

definition nl :: string where
  "nl = [CHR 0x0A]"

definition map_search_descriptor :: "http \<Rightarrow> descriptor" where
  "map_search_descriptor post =
     [(''tool'', DTool (map_search_api post)),
      (''type'', DVal (PStr ''function'')),
      (''function'', DVal (PDict
         [(''name'', PStr ''map_search_api''),
          (''description'', PStr ''Search for places based on a term, latitude, and longitude using the map search API. Useful for finding nearby restaurants, cafes, and other locations.''),
          (''parameters'', PDict
             [(''type'', PStr ''object''),
              (''properties'', PDict
                 [(''term'', PDict
                     [(''type'', PStr ''string''),
                      (''description'', PStr ''The search term to look for, such as 'restaurant', 'cafe', or 'park'.'')]),
                  (''lat'', PDict
                     [(''type'', PStr ''string''),
                      (''description'', PStr ''The latitude coordinate of the location where the search is performed.'')]),
                  (''lng'', PDict
                     [(''type'', PStr ''string''),
                      (''description'', PStr ''The longitude coordinate of the location where the search is performed.'')])]),
              (''required'', PList [PStr ''term'', PStr ''lat'', PStr ''lng''])])]))]"

definition google_search_descriptor :: "http \<Rightarrow> descriptor" where
  "google_search_descriptor post =
     [(''tool'', DTool (google_search_api post)),
      (''type'', DVal (PStr ''function'')),
      (''function'', DVal (PDict
         [(''name'', PStr ''google_search_api''),
          (''description'', PStr ''Perform a Google search and retrieve the top results with optional content inclusion.''),
          (''parameters'', PDict
             [(''type'', PStr ''object''),
              (''properties'', PDict
                 [(''query'', PDict
                     [(''type'', PStr ''string''),
                      (''description'', PStr ''The search query string, such as 'Tehran concerts tickets' or 'best travel destinations'.'')]),
                  (''include_content'', PDict
                     [(''type'', PStr ''boolean''),
                      (''description'', PStr ''Flag to include the content snippet of the search result. Defaults to true.'')])]),
              (''required'', PList [PStr ''query''])])]))]"

definition analyzer_backstory :: string where
  "analyzer_backstory =
     nl @ ''            You'' @ [CHR 0x27] @ ''re the first-line analyzer in a travel planning system. '' @ nl
     @ ''            You transform unstructured travel conversations into clear context profiles '' @ nl
     @ ''            that other agents use to make travel recommendations. '' @ nl
     @ ''            Your context summaries help the recommendation agents understand user needs '' @ nl
     @ ''            and make informed suggestions.'' @ nl
     @ ''            ''"

definition recommender_backstory :: string where
  "recommender_backstory =
     nl @ ''            You'' @ [CHR 0x27] @ ''re the recommendation expert in the travel planning system.'' @ nl
     @ ''            Using context profiles from the Context Analyzer, you create structured sets of'' @ nl
     @ ''            travel options that match user preferences. You provide multiple choices for'' @ nl
     @ ''            destinations, dates, activities, and logistics, allowing users to mix and match'' @ nl
     @ ''            their perfect trip components.'' @ nl
     @ ''            ''"

definition planner_backstory :: string where
  "planner_backstory =
     nl @ ''            You'' @ [CHR 0x27] @ ''re the final organizer in the travel planning system.'' @ nl
     @ ''            You take all selected destinations, accommodations, activities,'' @ nl
     @ ''            transportation, and dining choices and transform them into a'' @ nl
     @ ''            cohesive daily plan with all necessary details and logistics.'' @ nl
     @ ''            ''"

record advisor =
  adv_session :: session
  map_search_tool :: addr
  google_search_tool :: addr
  context_analyzer_agent :: agent
  recommender_agent :: agent
  planner_agent :: agent
  adv_context :: pyobj
  adv_options :: pyobj

text \<open>
  \<open>Advisor.__init__\<close>: the session, the two descriptor dicts of \<open>self.tools\<close>, the three
  agents (the Google descriptor goes to two of them), then \<open>self.context\<close> and \<open>self.options\<close> (here \<open>adv_context\<close>, \<open>adv_options\<close>) read
  through \<open>Session.__getitem__\<close>.
\<close>

definition Advisor_init ::
  "prompts \<Rightarrow> http \<Rightarrow> string \<Rightarrow> pyobj \<Rightarrow> string option \<Rightarrow> db \<Rightarrow> heap
     \<Rightarrow> (error + advisor) \<times> db \<times> heap" where
  "Advisor_init P post uuid oid sid d h =
     (case Session_init uuid oid sid d of
        (Inl e, d1) \<Rightarrow> (Inl e, d1, h)
      | (Inr s, d1) \<Rightarrow>
          (let (m, h1) = alloc (map_search_descriptor post) h;
               (g, h2) = alloc (google_search_descriptor post) h1 in
           case Agent_init (Some ''Travel Context Analyzer'')
                  (Some ''Convert user travel queries into structured context summaries and identify critical missing information'')
                  (Some (dedent P analyzer_backstory)) None default_model h2 of
             (Inl e, h3) \<Rightarrow> (Inl e, d1, h3)
           | (Inr a1, h3) \<Rightarrow>
               (case Agent_init (Some ''Travel Recommendation Specialist'')
                       (Some ''Generate personalized, multi-option travel recommendations based on user context and preferences'')
                       (Some (dedent P recommender_backstory)) (Some [m, g]) default_model h3 of
                  (Inl e, h4) \<Rightarrow> (Inl e, d1, h4)
                | (Inr a2, h4) \<Rightarrow>
                    (case Agent_init (Some ''Travel Itinerary Planner'')
                            (Some ''Create comprehensive, day-by-day travel plans by organizing all selected options into a structured, detailed itinerary'')
                            (Some (dedent P planner_backstory)) (Some [g]) default_model h4 of
                       (Inl e, h5) \<Rightarrow> (Inl e, d1, h5)
                     | (Inr a3, h5) \<Rightarrow>
                         (case Session_getitem s ''context'' of
                            Inl e \<Rightarrow> (Inl e, d1, h5)
                          | Inr c \<Rightarrow>
                              (case Session_getitem s ''options'' of
                                 Inl e \<Rightarrow> (Inl e, d1, h5)
                               | Inr opts \<Rightarrow>
                                   (Inr \<lparr>adv_session = s, map_search_tool = m, google_search_tool = g,
                                         context_analyzer_agent = a1, recommender_agent = a2,
                                         planner_agent = a3, adv_context = c, adv_options = opts\<rparr>,
                                    d1, h5)))))))"

text \<open>\<open>x[k]\<close> and \<open>x[k] = v\<close> with a string key: only a dict takes one.\<close>

definition subscript :: "pyobj \<Rightarrow> string \<Rightarrow> error + pyobj" where
  "subscript x k =
     (case x of
        PDict kv \<Rightarrow> (case dict_get kv k of None \<Rightarrow> Inl (KeyError k) | Some v \<Rightarrow> Inr v)
      | _ \<Rightarrow> Inl TypeError)"

definition store_item :: "pyobj \<Rightarrow> string \<Rightarrow> pyobj \<Rightarrow> error + pyobj" where
  "store_item x k v = (case x of PDict kv \<Rightarrow> Inr (PDict (dict_set k v kv)) | _ \<Rightarrow> Inl TypeError)"

text \<open>\<open>x += ys\<close> with a list on the right: only a list on the left is extended.\<close>

definition iadd :: "pyobj \<Rightarrow> pyobj list \<Rightarrow> error + pyobj" where
  "iadd x ys = (case x of PList xs \<Rightarrow> Inr (PList (xs @ ys)) | _ \<Rightarrow> Inl TypeError)"

definition context_description :: "prompts \<Rightarrow> string \<Rightarrow> string \<Rightarrow> pyobj \<Rightarrow> string" where
  "context_description P question answer ctx =
     dedent P (analyze_1 P @ question @ analyze_2 P @ answer @ analyze_3 P @ py_str P ctx @ analyze_4 P)"

definition recommendation_description :: "prompts \<Rightarrow> pyobj \<Rightarrow> string" where
  "recommendation_description P ctx = dedent P (recommend_1 P @ py_str P ctx @ recommend_2 P)"

definition planning_description :: "prompts \<Rightarrow> pyobj \<Rightarrow> pyobj \<Rightarrow> string" where
  "planning_description P opts ctx =
     dedent P (plan_1 P @ py_str P opts @ plan_2 P @ py_str P ctx @ plan_3 P)"

text \<open>What a stage or a turn leaves behind.\<close>

record turn =
  turn_result :: "error + pyobj"
  turn_advisor :: advisor
  turn_api :: api
  turn_trace :: "event list"

text \<open>\<open>Advisor.context_analyze\<close>\<close>

definition context_analyze ::
  "prompts \<Rightarrow> (string \<Rightarrow> pyobj option) \<Rightarrow> advisor \<Rightarrow> string \<Rightarrow> string \<Rightarrow> api \<Rightarrow> turn" where
  "context_analyze P loads adv answer question w =
     (let out = task loads (context_analyzer_agent adv)
                  (context_description P question answer (adv_context adv)) True w;
          adv1 = adv\<lparr>context_analyzer_agent := agent_after out\<rparr> in
      case result out of
        Inl e \<Rightarrow> \<lparr>turn_result = Inl e, turn_advisor = adv1, turn_api = api_after out, turn_trace = trace out\<rparr>
      | Inr output \<Rightarrow>
          (case subscript output ''user_context'' of
             Inl e \<Rightarrow>
               \<lparr>turn_result = Inl e, turn_advisor = adv1, turn_api = api_after out, turn_trace = trace out\<rparr>
           | Inr c \<Rightarrow>
               \<lparr>turn_result = Inr output, turn_advisor = adv1\<lparr>adv_context := c\<rparr>,
                turn_api = api_after out, turn_trace = trace out\<rparr>))"

text \<open>\<open>Advisor.recommendation\<close>\<close>

definition recommendation ::
  "prompts \<Rightarrow> (string \<Rightarrow> pyobj option) \<Rightarrow> advisor \<Rightarrow> api \<Rightarrow> turn" where
  "recommendation P loads adv w =
     (let out = task loads (recommender_agent adv) (recommendation_description P (adv_context adv)) True w in
      \<lparr>turn_result = result out, turn_advisor = adv\<lparr>recommender_agent := agent_after out\<rparr>,
       turn_api = api_after out, turn_trace = trace out\<rparr>)"

text \<open>\<open>Advisor.planning\<close>\<close>

definition planning ::
  "prompts \<Rightarrow> (string \<Rightarrow> pyobj option) \<Rightarrow> advisor \<Rightarrow> api \<Rightarrow> turn" where
  "planning P loads adv w =
     (let out = task loads (planner_agent adv)
                  (planning_description P (adv_options adv) (adv_context adv)) True w in
      \<lparr>turn_result = result out, turn_advisor = adv\<lparr>planner_agent := agent_after out\<rparr>,
       turn_api = api_after out, turn_trace = trace out\<rparr>)"

text \<open>
  \<open>Advisor.chat\<close>. The bare \<open>except: pass\<close> around the planning stage catches every
  exception; what the stage did to the planner agent and the API stays done.
\<close>

definition chat ::
  "prompts \<Rightarrow> (string \<Rightarrow> pyobj option) \<Rightarrow> advisor \<Rightarrow> string \<Rightarrow> string \<Rightarrow> pyobj list option \<Rightarrow> api
     \<Rightarrow> turn" where
  "chat P loads adv0 answer question opts w =
     (case (case opts of None \<Rightarrow> Inr (adv_options adv0) | Some ys \<Rightarrow> iadd (adv_options adv0) ys) of
        Inl e \<Rightarrow> \<lparr>turn_result = Inl e, turn_advisor = adv0, turn_api = w, turn_trace = []\<rparr>
      | Inr os \<Rightarrow>
          (let adv = adv0\<lparr>adv_options := os\<rparr>;
               t1 = context_analyze P loads adv answer question w in
           case turn_result t1 of
             Inl e \<Rightarrow> t1
           | Inr output \<Rightarrow>
               (let t2 = recommendation P loads (turn_advisor t1) (turn_api t1);
                    tr2 = turn_trace t1 @ turn_trace t2 in
                case turn_result t2 of
                  Inl e \<Rightarrow> t2\<lparr>turn_trace := tr2\<rparr>
                | Inr r \<Rightarrow>
                    (case store_item output ''recommendation'' r of
                       Inl e \<Rightarrow> t2\<lparr>turn_result := Inl e, turn_trace := tr2\<rparr>
                     | Inr output1 \<Rightarrow>
                         (let t3 = planning P loads (turn_advisor t2) (turn_api t2);
                              tr3 = tr2 @ turn_trace t3 in
                          case turn_result t3 of
                            Inl e \<Rightarrow> t3\<lparr>turn_result := Inr output1, turn_trace := tr3\<rparr>
                          | Inr p \<Rightarrow>
                              (case store_item output1 ''planning'' p of
                                 Inl e \<Rightarrow> t3\<lparr>turn_result := Inr output1, turn_trace := tr3\<rparr>
                               | Inr output2 \<Rightarrow> t3\<lparr>turn_result := Inr output2, turn_trace := tr3\<rparr>))))))"

section \<open>Notions used to state the properties\<close>

text \<open>A tool invocation, as opposed to a completion request.\<close>

fun is_invoke :: "event \<Rightarrow> bool" where
  "is_invoke (Invoke n kv) = True"
| "is_invoke (Completion r) = False"


text \<open>
  The tool calls are processed without an exception: every argument string decodes, and
  every call whose name finds a true entry in the table finds a callable there, has decoded
  to a JSON object, and the callable returns.
\<close>

fun clean_calls :: "(string \<Rightarrow> pyobj option) \<Rightarrow> (pyobj \<rightharpoonup> dval) \<Rightarrow> tool_call list \<Rightarrow> bool" where
  "clean_calls loads af [] = True"
| "clean_calls loads af (tc # tcs) =
     (case loads (tc_arguments tc) of
        None \<Rightarrow> False
      | Some a \<Rightarrow>
          (case af (PStr (tc_name tc)) of
             None \<Rightarrow> clean_calls loads af tcs
           | Some f \<Rightarrow>
               if truthy f then
                 (case (f, a) of
                    (DTool g, PDict kv) \<Rightarrow> (case g kv of Inl e \<Rightarrow> False | Inr r \<Rightarrow> clean_calls loads af tcs)
                  | _ \<Rightarrow> False)
               else clean_calls loads af tcs))"

text \<open>The first request is answered and the tool calls of the answer are processed cleanly.\<close>

definition answered_cleanly :: "(string \<Rightarrow> pyobj option) \<Rightarrow> agent \<Rightarrow> api \<Rightarrow> bool" where
  "answered_cleanly loads ag w =
     (case w of
        Inr m # rest \<Rightarrow> clean_calls loads (available_functions ag) (calls_of (tool_calls m))
      | _ \<Rightarrow> False)"

text \<open>The completion requests of a trace that carry no tools: the second requests.\<close>

definition no_tools_requests :: "event list \<Rightarrow> request list" where
  "no_tools_requests tr = concat (map (\<lambda>e. case e of Completion r \<Rightarrow> (if req_tools r = None then [r] else []) | Invoke n kv \<Rightarrow> []) tr)"

text \<open>
  What the registration loop of \<open>Agent.__init__\<close> computes from the descriptor dicts as
  the caller holds them: each schema name is bound to the dict's \<open>tool\<close> entry, a later
  descriptor replacing an earlier one of the same name.
\<close>

fun register_spec :: "descriptor list \<Rightarrow> (pyobj \<rightharpoonup> dval) \<Rightarrow> error + (pyobj \<rightharpoonup> dval)" where
  "register_spec [] af = Inr af"
| "register_spec (d # ds) af =
     (case dict_get d ''tool'' of
        None \<Rightarrow> Inl (KeyError ''tool'')
      | Some v \<Rightarrow>
          (case schema_name d of
             Inl e \<Rightarrow> Inl e
           | Inr n \<Rightarrow> if hashable n then register_spec ds (af(dict_key n \<mapsto> v)) else Inl TypeError))"


text \<open>
  The schema name and the callable of a descriptor dict, in the spec's words: the name
  under \<open>function\<close>, \<open>name\<close> and the entry under \<open>tool\<close>.
\<close>

definition descriptor_name :: "descriptor \<Rightarrow> pyobj option" where
  "descriptor_name d =
     (case map_of d ''function'' of
        Some (DVal (PDict f)) \<Rightarrow> map_of f ''name''
      | _ \<Rightarrow> None)"

definition descriptor_tool :: "descriptor \<Rightarrow> dval option" where
  "descriptor_tool d = map_of d ''tool''"

text \<open>
  The last descriptor of a list that carries the name \<open>k\<close>, names taken as dict keys.
\<close>

definition last_named :: "descriptor list \<Rightarrow> pyobj \<Rightarrow> descriptor option" where
  "last_named ds k =
     (case filter (\<lambda>d. map_option dict_key (descriptor_name d) = Some k) (rev ds) of
        [] \<Rightarrow> None
      | d # _ \<Rightarrow> Some d)"

text \<open>
  The prior value is a prefix or an element of the new one: what "appended to, never
  rewritten" asks of a context or an options value from one turn to the next.
\<close>

definition is_prefix :: "'a list \<Rightarrow> 'a list \<Rightarrow> bool" where
  "is_prefix xs ys = (take (length xs) ys = xs)"

definition extends :: "pyobj \<Rightarrow> pyobj \<Rightarrow> bool" where
  "extends old new =
     (old = new
      \<or> (case (old, new) of
            (PStr a, PStr b) \<Rightarrow> is_prefix a b
          | (PList a, PList b) \<Rightarrow> is_prefix a b
          | _ \<Rightarrow> False)
      \<or> (case new of PList b \<Rightarrow> old \<in> set b | _ \<Rightarrow> False))"

text \<open>A descriptor dict as the agent holds it, without its callable.\<close>

definition schema_only :: "descriptor \<Rightarrow> descriptor" where
  "schema_only d = dict_del ''tool'' d"

text \<open>
  The advisor \<open>Advisor.__init__\<close> builds on a session \<open>s\<close>, with its two descriptor dicts
  at the addresses \<open>m\<close> and \<open>g\<close>.
\<close>

definition initial_advisor :: "prompts \<Rightarrow> http \<Rightarrow> session \<Rightarrow> addr \<Rightarrow> addr \<Rightarrow> advisor" where
  "initial_advisor P post s m g =
     \<lparr>adv_session = s, map_search_tool = m, google_search_tool = g,
      context_analyzer_agent =
        \<lparr>model = default_model, role = Some ''Travel Context Analyzer'',
         goal = Some ''Convert user travel queries into structured context summaries and identify critical missing information'',
         backstory = Some (dedent P analyzer_backstory), tools = [], messages = [],
         available_functions = Map.empty\<rparr>,
      recommender_agent =
        \<lparr>model = default_model, role = Some ''Travel Recommendation Specialist'',
         goal = Some ''Generate personalized, multi-option travel recommendations based on user context and preferences'',
         backstory = Some (dedent P recommender_backstory),
         tools = [schema_only (map_search_descriptor post), schema_only (google_search_descriptor post)],
         messages = [],
         available_functions = [PStr ''map_search_api'' \<mapsto> DTool (map_search_api post),
                                PStr ''google_search_api'' \<mapsto> DTool (google_search_api post)]\<rparr>,
      planner_agent =
        \<lparr>model = default_model, role = Some ''Travel Itinerary Planner'',
         goal = Some ''Create comprehensive, day-by-day travel plans by organizing all selected options into a structured, detailed itinerary'',
         backstory = Some (dedent P planner_backstory),
         tools = [schema_only (google_search_descriptor post)], messages = [],
         available_functions = [PStr ''google_search_api'' \<mapsto> DTool (google_search_api post)]\<rparr>,
      adv_context = PNone, adv_options = PNone\<rparr>"

section \<open>Example inputs\<close>

text \<open>
  A decoder that agrees with \<open>json.loads\<close> on the five JSON texts the examples use and
  rejects every other text, among them the malformed \<open>{\<close>.
\<close>

definition dq :: string where
  "dq = [CHR 0x22]"

definition query_json :: string where
  "query_json = ''{'' @ dq @ ''query'' @ dq @ '': '' @ dq @ ''beach'' @ dq @ ''}''"

definition beach_json :: string where
  "beach_json = ''{'' @ dq @ ''user_context'' @ dq @ '': '' @ dq @ ''beach'' @ dq @ '', ''
       @ dq @ ''following_question'' @ dq @ '': '' @ dq @ ''When'' @ dq @ ''}''"

definition city_json :: string where
  "city_json = ''{'' @ dq @ ''user_context'' @ dq @ '': '' @ dq @ ''city'' @ dq @ '', ''
       @ dq @ ''following_question'' @ dq @ '': '' @ dq @ ''When'' @ dq @ ''}''"

definition planned_json :: string where
  "planned_json = ''{'' @ dq @ ''user_context'' @ dq @ '': '' @ dq @ ''beach'' @ dq @ '', ''
       @ dq @ ''planning'' @ dq @ '': '' @ dq @ ''none'' @ dq @ ''}''"

definition example_loads :: "string \<Rightarrow> pyobj option" where
  "example_loads s =
     (if s = query_json then Some (PDict [(''query'', PStr ''beach'')])
      else if s = beach_json then
        Some (PDict [(''user_context'', PStr ''beach''), (''following_question'', PStr ''When'')])
      else if s = city_json then
        Some (PDict [(''user_context'', PStr ''city''), (''following_question'', PStr ''When'')])
      else if s = planned_json then
        Some (PDict [(''user_context'', PStr ''beach''), (''planning'', PStr ''none'')])
      else if s = ''{}'' then Some (PDict [])
      else None)"

text \<open>A transport whose every POST returns the body \<open>[]\<close>.\<close>

definition example_post :: http where
  "example_post url payload = Inr ''[]''"

text \<open>An agent holding the Google search tool, as \<open>Agent.__init__\<close> builds it.\<close>

definition example_agent :: agent where
  "example_agent =
     \<lparr>model = default_model, role = Some ''Travel Itinerary Planner'', goal = None, backstory = None,
      tools = [schema_only (google_search_descriptor example_post)], messages = [],
      available_functions = [PStr ''google_search_api'' \<mapsto> DTool (google_search_api example_post)]\<rparr>"

definition search_call :: "string \<Rightarrow> tool_call" where
  "search_call args = \<lparr>tc_id = ''call_1'', tc_name = ''google_search_api'', tc_arguments = args\<rparr>"

definition unknown_call :: "string \<Rightarrow> tool_call" where
  "unknown_call args = \<lparr>tc_id = ''call_2'', tc_name = ''weather_info'', tc_arguments = args\<rparr>"

definition reply :: "tool_call list option \<Rightarrow> string option \<Rightarrow> error + api_message" where
  "reply tcs c = Inr \<lparr>tool_calls = tcs, content = c\<rparr>"

definition final_answer :: "error + api_message" where
  "final_answer = reply None (Some ''{}'')"

text \<open>A heap holding the two descriptor dicts of the advisor at addresses 0 and 1.\<close>

definition example_heap :: heap where
  "example_heap =
     \<lparr>cells = (\<lambda>a. [])(0 := map_search_descriptor example_post,
                          1 := google_search_descriptor example_post),
      next_free = 2\<rparr>"

text \<open>A store holding one session whose context and options are not empty.\<close>

definition stored_session :: document where
  "stored_session =
     [(''session_id'', PStr ''s1''), (''context'', PStr ''beach''),
      (''options'', PList [PStr ''Bali'']), (''plan'', PNone), (''_id'', PStr ''oid1'')]"

definition example_db :: db where
  "example_db = \<lparr>failure = None, sessions = [stored_session]\<rparr>"

text \<open>
  Prompt pieces for the examples: \<open>str\<close> as Python gives it for \<open>None\<close>, strings,
  booleans and the empty list and dict, and a \<open>dedent\<close> that finds nothing to remove.
\<close>

fun example_str :: "pyobj \<Rightarrow> string" where
  "example_str PNone = ''None''"
| "example_str (PStr s) = s"
| "example_str (PBool b) = (if b then ''True'' else ''False'')"
| "example_str (PList []) = ''[]''"
| "example_str (PDict []) = ''{}''"
| "example_str _ = ''...''"

definition example_prompts :: prompts where
  "example_prompts =
     \<lparr>py_str = example_str, dedent = (\<lambda>s. s),
      analyze_1 = ''question: '', analyze_2 = '' answer: '', analyze_3 = '' previous: '', analyze_4 = [],
      recommend_1 = ''User Context: '', recommend_2 = [],
      plan_1 = ''selected_options: '', plan_2 = '' user_context: '', plan_3 = []\<rparr>"

text \<open>
  The advisor constructed on the stored session over \<open>example_heap\<close>, and the six API
  answers of one turn without tool calls: the final contents of the analysis, the
  recommendation and the planning task.
\<close>

definition example_advisor :: advisor where
  "example_advisor =
     initial_advisor example_prompts example_post
       \<lparr>session_id = ''s1'', session_doc = PDict stored_session\<rparr> 2 3"

definition turn_replies :: "string \<Rightarrow> string \<Rightarrow> string \<Rightarrow> api" where
  "turn_replies a r p =
     [reply None None, reply None (Some a), reply None None, reply None (Some r),
      reply None None, reply None (Some p)]"

text \<open>
  A heap whose two descriptor dicts carry the same schema name and different callables.
\<close>

definition same_name_heap :: heap where
  "same_name_heap =
     \<lparr>cells = (\<lambda>a. [])(0 := map_search_descriptor example_post,
                          1 := dict_set ''tool'' (DTool (google_search_api example_post))
                                 (map_search_descriptor example_post)),
      next_free = 2\<rparr>"


section \<open>The tool loop and the two requests\<close>

lemma call_run:
  "call f n a st = (r, st') \<Longrightarrow>
     run_messages st' = run_messages st \<and> run_api st' = run_api st \<and>
     (run_trace st' = run_trace st \<or> (\<exists>kv. run_trace st' = run_trace st @ [Invoke n kv]))"
  by (auto simp: call_def split: dval.splits pyobj.splits)

lemma resolve_shape:
  "resolve loads af tcs st = (r, st') \<Longrightarrow>
     run_api st' = run_api st \<and>
     (\<exists>invs. run_trace st' = run_trace st @ invs \<and> list_all is_invoke invs \<and> length invs \<le> length tcs)"
proof (induction tcs arbitrary: st)
  case Nil
  then show ?case by simp
next
  case (Cons tc tcs)
  show ?case
  proof (cases "loads (tc_arguments tc)")
    case None
    with Cons.prems show ?thesis by simp
  next
    case (Some a)
    show ?thesis
    proof (cases "af (PStr (tc_name tc))")
      case None
      with Some Cons.prems have "resolve loads af tcs st = (r, st')" by simp
      from Cons.IH[OF this] show ?thesis by auto
    next
      case (Some f) note f = this
      show ?thesis
      proof (cases "truthy f")
        case False
        with f \<open>loads (tc_arguments tc) = Some a\<close> Cons.prems
        have "resolve loads af tcs st = (r, st')" by simp
        from Cons.IH[OF this] show ?thesis by auto
      next
        case True
        obtain c st1 where c: "call f (tc_name tc) a st = (c, st1)" by (cases "call f (tc_name tc) a st")
        note cr = call_run[OF c]
        show ?thesis
        proof (cases c)
          case (Inl e)
          with True f \<open>loads (tc_arguments tc) = Some a\<close> Cons.prems c
          have "st' = st1" by simp
          with cr show ?thesis by auto
        next
          case (Inr out)
          let ?st2 = "st1\<lparr>run_messages := run_messages st1 @
                           [\<lparr>msg_role = ''tool'', msg_content = out,
                             msg_tool_call_id = Some (tc_id tc)\<rparr>]\<rparr>"
          from Inr True f \<open>loads (tc_arguments tc) = Some a\<close> Cons.prems c
          have "resolve loads af tcs ?st2 = (r, st')" by simp
          from Cons.IH[OF this] obtain invs where
            i: "run_api st' = run_api st1" "run_trace st' = run_trace st1 @ invs" "list_all is_invoke invs"
               "length invs \<le> length tcs" by auto
          from cr show ?thesis
          proof (elim conjE disjE exE)
            assume "run_trace st1 = run_trace st" "run_api st1 = run_api st"
            with i show ?thesis by auto
          next
            fix kv assume "run_trace st1 = run_trace st @ [Invoke (tc_name tc) kv]" "run_api st1 = run_api st"
            with i show ?thesis by (intro conjI exI[of _ "Invoke (tc_name tc) kv # invs"]) auto
          qed
        qed
      qed
    qed
  qed
qed

lemma resolve_clean:
  "(fst (resolve loads af tcs st) = None) = clean_calls loads af tcs"
proof (induction tcs arbitrary: st)
  case Nil
  show ?case by simp
next
  case (Cons tc tcs)
  show ?case
    by (simp add: Cons.IH call_def split: option.splits dval.splits pyobj.splits sum.splits prod.splits)
qed

lemma resolve_skip:
  assumes "af (PStr (tc_name tc)) = None" "loads (tc_arguments tc) \<noteq> None"
  shows "resolve loads af (pre @ tc # post) st = resolve loads af (pre @ post) st"
  using assms
proof (induction pre arbitrary: st)
  case Nil
  then show ?case by auto
next
  case (Cons a pre)
  have "\<And>st. resolve loads af (pre @ tc # post) st = resolve loads af (pre @ post) st"
    by (rule Cons.IH[OF Cons.prems])
  then show ?case by (simp add: Let_def split: option.splits prod.splits sum.splits)
qed


lemma no_tools_Nil [simp]: "no_tools_requests [] = []"
  by (simp add: no_tools_requests_def)



lemma prepared_af [simp]: "available_functions (prepare ag d j) = available_functions ag"
  by (simp add: prepare_def create_system_prompt_def Let_def)


lemma task_answered:
  assumes w: "w = Inr m1 # rest"
    and r: "resolve loads (available_functions ag0) (calls_of (tool_calls m1))
              \<lparr>run_messages = messages (prepare ag0 d j), run_api = rest,
               run_trace = [Completion (first_request (prepare ag0 d j))]\<rparr> = (r, st2)"
  shows "task loads ag0 d j w =
     (case r of
        Some e \<Rightarrow> finish (Inl e) (prepare ag0 d j) st2
      | None \<Rightarrow>
          (case complete (second_request ((prepare ag0 d j)\<lparr>messages := run_messages st2\<rparr>)) st2 of
             (Inl e, st3) \<Rightarrow> finish (Inl e) (prepare ag0 d j) st3
           | (Inr m2, st3) \<Rightarrow>
               finish (if j then json_result loads (content m2) else Inr (text_result (content m2)))
                 (prepare ag0 d j) st3))"
  using r unfolding w task_def Let_def complete_def
  by (simp split: option.splits)



lemmas example_defs = example_loads_def query_json_def beach_json_def city_json_def planned_json_def dq_def example_post_def
  example_agent_def search_call_def reply_def google_search_api_def accepts_def arg_def dict_get_def

lemmas task_defs = task_def prepare_def create_system_prompt_def user_message_def complete_def
  finish_def first_request_def second_request_def call_def Let_def

lemmas ex_defs = example_defs unknown_call_def final_answer_def

section \<open>The agent's task\<close>

text \<open>
  C1, as stated, fails: a registered tool call whose argument string is not valid JSON
  raises at \<open>json.loads\<close> before the callable is reached, so the callable is invoked zero
  times.
\<close>

theorem tool_call_resolved_counterexample:
  "available_functions example_agent (PStr ''google_search_api'') \<noteq> None
   \<and> length (filter is_invoke
        (trace (task example_loads example_agent ''hi'' False
           [reply (Some [search_call ''{'']) None, final_answer]))) \<noteq> 1"
  by (simp add: task_defs ex_defs)

text \<open>
  C1, amended: when the first response holds exactly one tool call, its name is bound to a
  callable in the table, its argument string decodes to a JSON object and the callable
  returns, then \<open>task\<close> issues the first request, invokes that callable exactly once
  with the decoded arguments, and only then issues the second request, whose message list
  is the system and user messages followed by the tool-role message carrying the callable's
  raw output and the call's id.
\<close>

theorem tool_call_resolved:
  assumes "w = Inr m1 # rest"
    and "tool_calls m1 = Some [tc]"
    and "available_functions ag0 (PStr (tc_name tc)) = Some (DTool g)"
    and "loads (tc_arguments tc) = Some (PDict kv)"
    and "g kv = Inr body"
  shows "let out = task loads ag0 d j w; ag = prepare ag0 d j;
             tool_message = \<lparr>msg_role = ''tool'', msg_content = body, msg_tool_call_id = Some (tc_id tc)\<rparr> in
           trace out = [Completion (first_request ag), Invoke (tc_name tc) kv,
                        Completion (second_request (ag\<lparr>messages := messages ag @ [tool_message]\<rparr>))]
           \<and> messages (agent_after out) = messages ag @ [tool_message]"
  using assms
  by (cases rest) (auto simp: task_def Let_def complete_def finish_def call_def split: sum.splits)

theorem tool_call_resolved_witness:
  "trace (task example_loads example_agent ''hi'' False
      [reply (Some [search_call query_json]) None, final_answer])
   = [Completion (first_request (prepare example_agent ''hi'' False)),
      Invoke ''google_search_api'' [(''query'', PStr ''beach'')],
      Completion (second_request ((prepare example_agent ''hi'' False)
        \<lparr>messages := messages (prepare example_agent ''hi'' False) @
           [\<lparr>msg_role = ''tool'', msg_content = ''[]'', msg_tool_call_id = Some ''call_1''\<rparr>]\<rparr>))]"
proof -
  let ?m1 = "\<lparr>tool_calls = Some [search_call query_json], content = None\<rparr>"
  have 1: "[reply (Some [search_call query_json]) None, final_answer] = Inr ?m1 # [final_answer]"
    by (simp add: reply_def)
  have 2: "tool_calls ?m1 = Some [search_call query_json]" by simp
  have 3: "available_functions example_agent (PStr (tc_name (search_call query_json)))
             = Some (DTool (google_search_api example_post))"
    by (simp add: example_agent_def search_call_def)
  have 4: "example_loads (tc_arguments (search_call query_json)) = Some (PDict [(''query'', PStr ''beach'')])"
    by (simp add: example_loads_def search_call_def)
  have 5: "google_search_api example_post [(''query'', PStr ''beach'')] = Inr ''[]''"
    by (simp add: google_search_api_def accepts_def example_post_def)
  from tool_call_resolved[where loads=example_loads and ?ag0.0=example_agent
         and tc="search_call query_json" and g="google_search_api example_post"
         and kv="[(''query'', PStr ''beach'')]" and body="''[]''" and d="''hi''" and j=False,
         OF 1 2 3 4 5]
  show ?thesis by (simp add: Let_def search_call_def)
qed

text \<open>
  C2, as stated, fails: the arguments of an unregistered call are decoded before the table
  entry is tested, so a malformed argument string raises JSONDecodeError.
\<close>

theorem unregistered_call_skipped_counterexample:
  "available_functions example_agent (PStr (tc_name (unknown_call ''{''))) = None
   \<and> result (task example_loads example_agent ''hi'' False
        [reply (Some [unknown_call ''{'']) None, final_answer]) = Inl JSONDecodeError"
  by (simp add: task_defs ex_defs)

text \<open>
  C2, amended: a tool call of the first response whose name is not in the table and whose
  argument string is valid JSON is passed over: the run is the one the response without that
  call gives. When it is the only call and the second request is answered, no callable is
  invoked, no tool-role message is appended, and the result is the second response's content
  (decoded when JSON output was asked for).
\<close>

theorem unregistered_call_skipped:
  assumes "w = Inr m1 # rest"
    and "tool_calls m1 = Some (pre @ tc # post)"
    and "available_functions ag0 (PStr (tc_name tc)) = None"
    and "loads (tc_arguments tc) \<noteq> None"
  shows "task loads ag0 d j w = task loads ag0 d j (Inr (m1\<lparr>tool_calls := Some (pre @ post)\<rparr>) # rest)
         \<and> (\<forall>m2 rest'. pre = [] \<and> post = [] \<and> rest = Inr m2 # rest' \<longrightarrow>
              (let out = task loads ag0 d j w; ag = prepare ag0 d j in
                 trace out = [Completion (first_request ag), Completion (second_request ag)]
                 \<and> messages (agent_after out) = messages ag
                 \<and> result out = (if j then json_result loads (content m2)
                                  else Inr (text_result (content m2)))))"
proof -
  have sk: "\<And>st. resolve loads (available_functions (prepare ag0 d j)) (pre @ tc # post) st
             = resolve loads (available_functions (prepare ag0 d j)) (pre @ post) st"
    using resolve_skip[of "available_functions (prepare ag0 d j)" tc loads pre post] assms(3,4) by simp
  have 1: "task loads ag0 d j w = task loads ag0 d j (Inr (m1\<lparr>tool_calls := Some (pre @ post)\<rparr>) # rest)"
    unfolding task_def Let_def complete_def assms(1) using assms(2) sk by simp
  have 2: "\<forall>m2 rest'. pre = [] \<and> post = [] \<and> rest = Inr m2 # rest' \<longrightarrow>
              (let out = task loads ag0 d j w; ag = prepare ag0 d j in
                 trace out = [Completion (first_request ag), Completion (second_request ag)]
                 \<and> messages (agent_after out) = messages ag
                 \<and> result out = (if j then json_result loads (content m2)
                                  else Inr (text_result (content m2))))"
    unfolding 1 by (auto simp: task_def Let_def complete_def finish_def)
  from 1 2 show ?thesis by blast
qed

theorem unregistered_call_skipped_witness:
  "result (task example_loads example_agent ''hi'' False
      [reply (Some [unknown_call ''{}'']) None, final_answer]) = Inr (PStr ''{}'')
   \<and> messages (agent_after (task example_loads example_agent ''hi'' False
      [reply (Some [unknown_call ''{}'']) None, final_answer]))
     = messages (prepare example_agent ''hi'' False)"
proof -
  let ?m1 = "\<lparr>tool_calls = Some [unknown_call ''{}''], content = None\<rparr>"
  let ?m2 = "\<lparr>tool_calls = None, content = Some ''{}''\<rparr>"
  have 1: "[reply (Some [unknown_call ''{}'']) None, final_answer] = Inr ?m1 # [Inr ?m2]"
    by (simp add: reply_def final_answer_def)
  have 2: "tool_calls ?m1 = Some ([] @ unknown_call ''{}'' # [])" by simp
  have 3: "available_functions example_agent (PStr (tc_name (unknown_call ''{}''))) = None"
    by (simp add: example_agent_def unknown_call_def)
  have 4: "example_loads (tc_arguments (unknown_call ''{}'')) \<noteq> None"
    by (simp add: ex_defs)
  from unregistered_call_skipped[where loads=example_loads and ?ag0.0=example_agent
         and tc="unknown_call ''{}''" and pre="[]" and post="[]" and d="''hi''" and j=False,
         OF 1 2 3 4, THEN conjunct2]
  show ?thesis by (simp add: Let_def 1)
qed




text \<open>
  C4, as stated, fails: with JSON output asked for, a malformed argument string of a tool
  call in the first response makes \<open>task\<close> fail with a JSON parse error although the
  second answer's content is valid JSON.
\<close>

theorem json_output_decoded_counterexample:
  "example_loads ''{}'' \<noteq> None
   \<and> result (task example_loads example_agent ''hi'' True
        [reply (Some [search_call ''{'']) None, reply None (Some ''{}'')]) = Inl JSONDecodeError"
  by (simp add: task_defs ex_defs)

text \<open>
  C4, amended: when JSON output is asked for, the first request is answered, its tool
  calls are processed without an exception and the second request is answered with text
  content, the result is the decoding of that content, and \<open>task\<close> fails with
  JSONDecodeError, handed to the caller as its result, exactly when the content is not
  valid JSON.
\<close>

theorem json_output_decoded:
  assumes "answered_cleanly loads ag0 w"
    and "w = Inr m1 # Inr m2 # rest"
    and "content m2 = Some s"
  shows "(\<forall>v. loads s = Some v \<longrightarrow> result (task loads ag0 d True w) = Inr v)
         \<and> (result (task loads ag0 d True w) = Inl JSONDecodeError) = (loads s = None)
         \<and> (loads s = None \<or> (\<exists>v. result (task loads ag0 d True w) = Inr v))"
proof -
  let ?ag = "prepare ag0 d True"
  let ?st1 = "\<lparr>run_messages = messages ?ag, run_api = Inr m2 # rest,
               run_trace = [Completion (first_request ?ag)]\<rparr>"
  obtain r st2 where r: "resolve loads (available_functions ag0) (calls_of (tool_calls m1)) ?st1 = (r, st2)"
    by (cases "resolve loads (available_functions ag0) (calls_of (tool_calls m1)) ?st1")
  from resolve_clean[of loads "available_functions ag0" "calls_of (tool_calls m1)" ?st1] r assms(1,2)
  have n: "r = None" by (simp add: answered_cleanly_def)
  from resolve_shape[OF r] have api: "run_api st2 = Inr m2 # rest" by simp
  from task_answered[OF assms(2) r] n api assms(3)
  have "result (task loads ag0 d True w) = json_result loads (Some s)"
    by (simp add: complete_def finish_def)
  then show ?thesis by (cases "loads s") auto
qed

theorem json_output_decoded_witness:
  "result (task example_loads example_agent ''hi'' True
      [reply (Some [search_call query_json]) None, reply None (Some beach_json)])
     = Inr (PDict [(''user_context'', PStr ''beach''), (''following_question'', PStr ''When'')])
   \<and> result (task example_loads example_agent ''hi'' True
      [reply (Some [search_call query_json]) None, reply None (Some ''{'')]) = Inl JSONDecodeError"
proof -
  let ?m1 = "\<lparr>tool_calls = Some [search_call query_json], content = None\<rparr>"
  have a: "\<And>m2. answered_cleanly example_loads example_agent (Inr ?m1 # Inr m2 # [])"
    by (simp add: answered_cleanly_def ex_defs)
  have 1: "example_loads beach_json
             = Some (PDict [(''user_context'', PStr ''beach''), (''following_question'', PStr ''When'')])"
    by (simp add: ex_defs)
  have 2: "example_loads ''{'' = None" by (simp add: ex_defs)
  from json_output_decoded[OF a refl, of "\<lparr>tool_calls = None, content = Some beach_json\<rparr>" beach_json "''hi''"]
       json_output_decoded[OF a refl, of "\<lparr>tool_calls = None, content = Some ''{''\<rparr>" "''{''" "''hi''"]
       1 2
  show ?thesis by (simp add: reply_def)
qed


section \<open>Constructing an agent\<close>

lemma dict_get_del: "dict_get (dict_del k d) k' = (if k' = k then None else dict_get d k')"
  by (induction d) (auto simp: dict_get_def dict_del_def)

lemma schema_name_del [simp]: "schema_name (dict_del ''tool'' d) = schema_name d"
  by (simp add: schema_name_def dict_get_del)

lemma copy_all_props:
  "copy_all as h = (cs, h1) \<Longrightarrow> \<forall>a\<in>set as. a < next_free h \<Longrightarrow>
     distinct cs \<and> (\<forall>c\<in>set cs. next_free h \<le> c \<and> c < next_free h1) \<and>
     next_free h \<le> next_free h1 \<and>
     (\<forall>a < next_free h. cells h1 a = cells h a) \<and>
     map (cells h1) cs = map (cells h) as"
proof (induction as arbitrary: h cs h1)
  case Nil
  then show ?case by simp
next
  case (Cons a as)
  let ?h = "snd (dict_copy a h)"
  obtain cs' h' where r: "copy_all as ?h = (cs', h')" by (cases "copy_all as ?h")
  have nf: "next_free ?h = Suc (next_free h)" by (simp add: dict_copy_def alloc_def)
  have cl: "\<And>x. x < next_free h \<Longrightarrow> cells ?h x = cells h x" by (simp add: dict_copy_def alloc_def)
  have fresh: "cells ?h (next_free h) = cells h a" by (simp add: dict_copy_def alloc_def)
  from Cons.prems(2) nf have v: "\<forall>x\<in>set as. x < next_free ?h" by auto
  note ih = Cons.IH[OF r v]
  from Cons.prems(1) r have cs: "cs = next_free h # cs'" and h1: "h1 = h'"
    by (auto simp: dict_copy_def alloc_def split: prod.splits)
  from ih nf have 1: "distinct cs" unfolding cs by auto
  from ih nf have 2: "\<forall>c\<in>set cs. next_free h \<le> c \<and> c < next_free h1" unfolding cs h1 by auto
  from ih nf have 3: "next_free h \<le> next_free h1" unfolding h1 by simp
  from ih nf cl have 4: "\<forall>x < next_free h. cells h1 x = cells h x" unfolding h1 by auto
  from ih nf fresh have p4: "cells h1 (next_free h) = cells h a" unfolding h1 by auto
  from ih Cons.prems(2) cl have p5: "map (cells h1) cs' = map (cells h) as" unfolding h1 by auto
  have 5: "map (cells h1) cs = map (cells h) (a # as)" unfolding cs using p4 p5 by simp
  from 1 2 3 4 5 show ?case by blast
qed

lemma register_tools_props:
  "register_tools cs af h1 = (res, h2) \<Longrightarrow> distinct cs \<Longrightarrow>
     next_free h2 = next_free h1 \<and>
     (\<forall>a. a \<notin> set cs \<longrightarrow> cells h2 a = cells h1 a) \<and>
     res = register_spec (map (cells h1) cs) af \<and>
     (\<forall>af'. res = Inr af' \<longrightarrow> map (cells h2) cs = map (\<lambda>c. dict_del ''tool'' (cells h1 c)) cs)"
proof (induction cs arbitrary: af h1)
  case Nil
  then show ?case by simp
next
  case (Cons c cs)
  show ?case
  proof (cases "dict_get (cells h1 c) ''tool''")
    case None
    with Cons.prems show ?thesis by (auto simp: dict_pop_def)
  next
    case (Some v)
    define hp where "hp = h1\<lparr>cells := (cells h1)(c := dict_del ''tool'' (cells h1 c))\<rparr>"
    have pop: "dict_pop c ''tool'' h1 = (Inr v, hp)" using Some by (simp add: dict_pop_def hp_def)
    have hp_c: "cells hp c = dict_del ''tool'' (cells h1 c)" by (simp add: hp_def)
    have hp_o: "\<And>a. a \<noteq> c \<Longrightarrow> cells hp a = cells h1 a" by (simp add: hp_def)
    have hp_n: "next_free hp = next_free h1" by (simp add: hp_def)
    have sn: "schema_name (cells hp c) = schema_name (cells h1 c)" by (simp add: hp_c)
    show ?thesis
    proof (cases "schema_name (cells h1 c)")
      case (Inl e)
      with Cons.prems pop Some sn hp_o hp_n show ?thesis by auto
    next
      case (Inr n)
      show ?thesis
      proof (cases "hashable n")
        case False
        with Cons.prems pop Some Inr sn hp_o hp_n show ?thesis by auto
      next
        case True
        with Cons.prems pop Some Inr sn have r: "register_tools cs (af(dict_key n \<mapsto> v)) hp = (res, h2)" by simp
        from Cons.prems(2) have d: "distinct cs" and nin: "c \<notin> set cs" by auto
        note ih = Cons.IH[OF r d]
        from nin hp_o have same: "map (cells hp) cs = map (cells h1) cs" by (induction cs) auto
        from nin hp_o have same': "map (\<lambda>c. dict_del ''tool'' (cells hp c)) cs = map (\<lambda>c. dict_del ''tool'' (cells h1 c)) cs"
          by (induction cs) auto
        from ih nin hp_c have c2: "cells h2 c = dict_del ''tool'' (cells h1 c)" by auto
        have 1: "next_free h2 = next_free h1" using ih hp_n by simp
        have 2: "\<forall>a. a \<notin> set (c # cs) \<longrightarrow> cells h2 a = cells h1 a" using ih hp_o by auto
        have 3: "res = register_spec (map (cells h1) (c # cs)) af"
          using ih same Some Inr True by (simp add: fun_upd_def)
        have 4: "\<forall>af'. res = Inr af' \<longrightarrow> map (cells h2) (c # cs) = map (\<lambda>c. dict_del ''tool'' (cells h1 c)) (c # cs)"
          using ih same' c2 by simp
        from 1 2 3 4 show ?thesis by blast
      qed
    qed
  qed
qed

lemma schema_name_descriptor: "(schema_name d = Inr n) = (descriptor_name d = Some n)"
  by (auto simp: schema_name_def descriptor_name_def dict_get_def
           split: option.splits dval.splits pyobj.splits)

lemma register_spec_table:
  "register_spec ds af = Inr af' \<Longrightarrow>
     (\<forall>d\<in>set ds. \<exists>n v. descriptor_name d = Some n \<and> descriptor_tool d = Some v)
     \<and> (\<forall>k. af' k =
           (case filter (\<lambda>d. map_option dict_key (descriptor_name d) = Some k) (rev ds) of
              [] \<Rightarrow> af k
            | d # _ \<Rightarrow> descriptor_tool d))"
proof (induction ds arbitrary: af)
  case Nil
  then show ?case by simp
next
  case (Cons d ds)
  from Cons.prems obtain v n where
    v: "dict_get d ''tool'' = Some v" and n: "schema_name d = Inr n" and hn: "hashable n"
    and r: "register_spec ds (af(dict_key n \<mapsto> v)) = Inr af'"
    by (auto split: option.splits sum.splits if_splits)
  note ih = Cons.IH[OF r]
  from n have dn: "descriptor_name d = Some n" by (simp add: schema_name_descriptor)
  from v have dt: "descriptor_tool d = Some v" by (simp add: descriptor_tool_def dict_get_def)
  have a: "\<forall>x\<in>set (d # ds). \<exists>n v. descriptor_name x = Some n \<and> descriptor_tool x = Some v"
    using ih dn dt by auto
  have b: "af' k =
           (case filter (\<lambda>d. map_option dict_key (descriptor_name d) = Some k) (rev (d # ds)) of
              [] \<Rightarrow> af k
            | d # _ \<Rightarrow> descriptor_tool d)" for k
  proof (cases "filter (\<lambda>d. map_option dict_key (descriptor_name d) = Some k) (rev ds)")
    case Nil
    with ih have "af' k = (af(dict_key n \<mapsto> v)) k" by simp
    with Nil dn dt show ?thesis by simp
  next
    case (Cons x xs)
    with ih have "af' k = descriptor_tool x" by simp
    with Cons show ?thesis by simp
  qed
  from a b show ?case by blast
qed

lemma Agent_init_spec:
  assumes valid: "\<forall>a\<in>set as. a < next_free h"
    and init: "Agent_init r g b (Some as) m h = (res, h')"
  shows "(\<forall>a<next_free h. cells h' a = cells h a) \<and> next_free h \<le> next_free h' \<and>
         res = (case register_spec (map (cells h) as) Map.empty of
                  Inl e \<Rightarrow> Inl e
                | Inr af \<Rightarrow>
                    Inr \<lparr>model = m, role = r, goal = g, backstory = b,
                         tools = map (\<lambda>a. dict_del ''tool'' (cells h a)) as,
                         messages = [], available_functions = af\<rparr>)"
proof -
  obtain cs h1 where c: "copy_all as h = (cs, h1)" by (cases "copy_all as h")
  note cp = copy_all_props[OF c valid]
  obtain rr h2 where rt: "register_tools cs Map.empty h1 = (rr, h2)"
    by (cases "register_tools cs Map.empty h1")
  from cp have d: "distinct cs" by simp
  note rp = register_tools_props[OF rt d]
  have cs_eq: "(case Some as of None \<Rightarrow> ([], h) | Some [] \<Rightarrow> ([], h) | Some as \<Rightarrow> copy_all as h) = (cs, h1)"
    using c by (cases as) auto
  from init cs_eq rt have res: "res = (case rr of Inl e \<Rightarrow> Inl e
        | Inr af \<Rightarrow> Inr \<lparr>model = m, role = r, goal = g, backstory = b, tools = map (cells h2) cs,
                messages = [], available_functions = af\<rparr>)" and h': "h' = h2"
    unfolding Agent_init_def by (auto split: sum.splits)
  have old: "\<forall>a<next_free h. cells h' a = cells h a"
  proof (intro allI impI)
    fix a assume a: "a < next_free h"
    with cp have "a \<notin> set cs" by auto
    with rp cp a show "cells h' a = cells h a" unfolding h' by auto
  qed
  have nf: "next_free h \<le> next_free h'" using rp cp unfolding h' by simp
  have rr: "rr = register_spec (map (cells h) as) Map.empty" using rp cp by simp
  have tl: "\<And>af. rr = Inr af \<Longrightarrow> map (cells h2) cs = map (\<lambda>a. dict_del ''tool'' (cells h a)) as"
  proof -
    fix af assume "rr = Inr af"
    with rp have "map (cells h2) cs = map (\<lambda>c. dict_del ''tool'' (cells h1 c)) cs" by blast
    also have "\<dots> = map (dict_del ''tool'') (map (cells h1) cs)" by simp
    also have "\<dots> = map (dict_del ''tool'') (map (cells h) as)" using cp by simp
    finally show "map (cells h2) cs = map (\<lambda>a. dict_del ''tool'' (cells h a)) as" by simp
  qed
  have "res = (case register_spec (map (cells h) as) Map.empty of
                  Inl e \<Rightarrow> Inl e
                | Inr af \<Rightarrow>
                    Inr \<lparr>model = m, role = r, goal = g, backstory = b,
                         tools = map (\<lambda>a. dict_del ''tool'' (cells h a)) as,
                         messages = [], available_functions = af\<rparr>)"
  proof (cases "register_spec (map (cells h) as) Map.empty")
    case (Inl e)
    with res rr show ?thesis by simp
  next
    case (Inr af)
    with rr have "rr = Inr af" by simp
    from tl[OF this] res rr Inr show ?thesis by simp
  qed
  with old nf show ?thesis by blast
qed

lemma google_descriptor_parts:
  "dict_get (google_search_descriptor p) ''tool'' = Some (DTool (google_search_api p))"
  "schema_name (google_search_descriptor p) = Inr (PStr ''google_search_api'')"
  by (simp_all add: google_search_descriptor_def dict_get_def schema_name_def)

lemma map_descriptor_parts:
  "dict_get (map_search_descriptor p) ''tool'' = Some (DTool (map_search_api p))"
  "schema_name (map_search_descriptor p) = Inr (PStr ''map_search_api'')"
  by (simp_all add: map_search_descriptor_def dict_get_def schema_name_def)

text \<open>
  C10, as stated, fails in its last part: of two descriptors carrying the same schema name
  the table keeps only the callable of the second, so the schema name of the first is not
  mapped to the callable popped from it.
\<close>

theorem Agent_init_keeps_descriptors_counterexample:
  "descriptor_name (cells same_name_heap 0) = Some (PStr ''map_search_api'')
   \<and> descriptor_tool (cells same_name_heap 0) = Some (DTool (map_search_api example_post))
   \<and> (case fst (Agent_init None None None (Some [0, 1]) default_model same_name_heap) of
         Inl e \<Rightarrow> False
       | Inr ag \<Rightarrow>
           available_functions ag (PStr ''map_search_api'')
             = Some (DTool (google_search_api example_post)))
   \<and> map_search_api example_post [(''query'', PStr ''x'')]
       \<noteq> google_search_api example_post [(''query'', PStr ''x'')]"
proof -
  let ?i = "Agent_init None None None (Some [0, 1]) default_model same_name_heap"
  have v: "\<forall>a\<in>set [0, 1::nat]. a < next_free same_name_heap" by (simp add: same_name_heap_def)
  have i: "?i = (fst ?i, snd ?i)" by simp
  have c0: "cells same_name_heap 0 = map_search_descriptor example_post"
    and c1: "cells same_name_heap (Suc 0)
               = dict_set ''tool'' (DTool (google_search_api example_post))
                   (map_search_descriptor example_post)"
    by (simp_all add: same_name_heap_def)
  have s1: "schema_name (dict_set ''tool'' (DTool (google_search_api example_post))
                          (map_search_descriptor example_post)) = Inr (PStr ''map_search_api'')"
    and t1: "dict_get (dict_set ''tool'' (DTool (google_search_api example_post))
                         (map_search_descriptor example_post)) ''tool''
               = Some (DTool (google_search_api example_post))"
    by (simp_all add: map_search_descriptor_def schema_name_def dict_get_def)
  from Agent_init_spec[OF v i]
  have "\<exists>ag. fst ?i = Inr ag \<and> available_functions ag (PStr ''map_search_api'')
             = Some (DTool (google_search_api example_post))"
    by (simp add: c0 c1 s1 t1 map_descriptor_parts)
  moreover have "descriptor_name (cells same_name_heap 0) = Some (PStr ''map_search_api'')"
    using map_descriptor_parts(2)[of example_post] by (simp add: c0 schema_name_descriptor)
  moreover have "descriptor_tool (cells same_name_heap 0) = Some (DTool (map_search_api example_post))"
    using map_descriptor_parts(1)[of example_post] by (simp add: c0 descriptor_tool_def dict_get_def)
  moreover have "map_search_api example_post [(''query'', PStr ''x'')]
       \<noteq> google_search_api example_post [(''query'', PStr ''x'')]"
    by (simp add: map_search_api_def google_search_api_def accepts_def example_post_def)
  ultimately show ?thesis by auto
qed

text \<open>
  C10, amended: constructing an agent from a list of allocated descriptor dicts leaves
  every dict that existed before unchanged, the caller's descriptors among them, whether or
  not the construction succeeds. When it succeeds, every descriptor had a schema name and a
  \<open>tool\<close> entry; the agent's own descriptor list is the caller's with the \<open>tool\<close> key
  removed and holds no \<open>tool\<close> key; \<open>available_functions\<close> maps every key to the
  \<open>tool\<close> entry of the last descriptor carrying that key as its schema name (an earlier
  descriptor of the same name is overwritten) and holds no other key; and constructing
  another agent from the same descriptors afterwards succeeds with the same list and table.
\<close>

theorem Agent_init_keeps_descriptors:
  assumes "\<forall>a\<in>set as. a < next_free h"
    and "Agent_init r g b (Some as) m h = (res, h')"
  shows "(\<forall>a<next_free h. cells h' a = cells h a)
     \<and> (\<forall>ag. res = Inr ag \<longrightarrow>
          tools ag = map (\<lambda>a. dict_del ''tool'' (cells h a)) as
          \<and> (\<forall>d\<in>set (tools ag). descriptor_tool d = None)
          \<and> (\<forall>a\<in>set as. \<exists>n v. descriptor_name (cells h a) = Some n
                                  \<and> descriptor_tool (cells h a) = Some v)
          \<and> (\<forall>k. available_functions ag k =
                (case last_named (map (cells h) as) k of
                   None \<Rightarrow> None
                 | Some d \<Rightarrow> descriptor_tool d))
          \<and> (\<exists>ag2 h2. Agent_init r2 g2 b2 (Some as) m2 h' = (Inr ag2, h2) \<and>
                tools ag2 = tools ag \<and> available_functions ag2 = available_functions ag))"
proof -
  note sp = Agent_init_spec[OF assms]
  from sp have frame: "\<forall>a<next_free h. cells h' a = cells h a" by blast
  have rest: "tools ag = map (\<lambda>a. dict_del ''tool'' (cells h a)) as
          \<and> (\<forall>d\<in>set (tools ag). descriptor_tool d = None)
          \<and> (\<forall>a\<in>set as. \<exists>n v. descriptor_name (cells h a) = Some n
                                  \<and> descriptor_tool (cells h a) = Some v)
          \<and> (\<forall>k. available_functions ag k =
                (case last_named (map (cells h) as) k of
                   None \<Rightarrow> None
                 | Some d \<Rightarrow> descriptor_tool d))
          \<and> (\<exists>ag2 h2. Agent_init r2 g2 b2 (Some as) m2 h' = (Inr ag2, h2) \<and>
                tools ag2 = tools ag \<and> available_functions ag2 = available_functions ag)"
    if ok: "res = Inr ag" for ag
  proof -
    from sp ok obtain af where
      rs: "register_spec (map (cells h) as) Map.empty = Inr af"
      and ag: "ag = \<lparr>model = m, role = r, goal = g, backstory = b,
                     tools = map (\<lambda>a. dict_del ''tool'' (cells h a)) as,
                     messages = [], available_functions = af\<rparr>"
      by (cases "register_spec (map (cells h) as) Map.empty") auto
    note tb = register_spec_table[OF rs]
    have 1: "tools ag = map (\<lambda>a. dict_del ''tool'' (cells h a)) as" by (simp add: ag)
    have 2: "\<forall>d\<in>set (tools ag). descriptor_tool d = None"
      using dict_get_del[of "''tool''" _ "''tool''"] by (auto simp: 1 descriptor_tool_def dict_get_def)
    have 3: "\<forall>a\<in>set as. \<exists>n v. descriptor_name (cells h a) = Some n
                                  \<and> descriptor_tool (cells h a) = Some v"
      using tb by auto
    have 4: "\<forall>k. available_functions ag k =
                (case last_named (map (cells h) as) k of
                   None \<Rightarrow> None
                 | Some d \<Rightarrow> descriptor_tool d)"
    proof
      fix k
      from tb have "af k =
           (case filter (\<lambda>d. map_option dict_key (descriptor_name d) = Some k) (rev (map (cells h) as)) of
              [] \<Rightarrow> None
            | d # _ \<Rightarrow> descriptor_tool d)"
        by simp
      then show "available_functions ag k =
                (case last_named (map (cells h) as) k of
                   None \<Rightarrow> None
                 | Some d \<Rightarrow> descriptor_tool d)"
        by (simp add: ag last_named_def split: list.splits)
    qed
    have valid': "\<forall>a\<in>set as. a < next_free h'" using sp assms(1) by fastforce
    obtain res2 h2 where i2: "Agent_init r2 g2 b2 (Some as) m2 h' = (res2, h2)"
      by (cases "Agent_init r2 g2 b2 (Some as) m2 h'")
    have same: "map (cells h') as = map (cells h) as" using frame assms(1) by auto
    have same': "map (\<lambda>a. dict_del ''tool'' (cells h' a)) as = map (\<lambda>a. dict_del ''tool'' (cells h a)) as"
      using frame assms(1) by auto
    from Agent_init_spec[OF valid' i2] rs same same'
    have "res2 = Inr \<lparr>model = m2, role = r2, goal = g2, backstory = b2,
                     tools = map (\<lambda>a. dict_del ''tool'' (cells h a)) as,
                     messages = [], available_functions = af\<rparr>"
      by simp
    with i2 have 5: "\<exists>ag2 h2. Agent_init r2 g2 b2 (Some as) m2 h' = (Inr ag2, h2) \<and>
                tools ag2 = tools ag \<and> available_functions ag2 = available_functions ag"
      by (simp add: ag)
    from 1 2 3 4 5 show ?thesis by blast
  qed
  from frame rest show ?thesis by blast
qed

text \<open>
  The recommender's construction from both descriptors of the advisor, followed by the
  planner's from the Google descriptor alone, on the heap the first one left.
\<close>

theorem Agent_init_keeps_descriptors_witness:
  "cells (snd (Agent_init (Some ''Travel Recommendation Specialist'') None None (Some [0, 1])
                 default_model example_heap)) 0 = map_search_descriptor example_post
   \<and> cells (snd (Agent_init (Some ''Travel Recommendation Specialist'') None None (Some [0, 1])
                 default_model example_heap)) 1 = google_search_descriptor example_post
   \<and> (case fst (Agent_init (Some ''Travel Recommendation Specialist'') None None (Some [0, 1])
                 default_model example_heap) of
         Inl e \<Rightarrow> False
       | Inr ag \<Rightarrow>
           tools ag = [schema_only (map_search_descriptor example_post),
                       schema_only (google_search_descriptor example_post)]
           \<and> available_functions ag (PStr ''map_search_api'')
               = Some (DTool (map_search_api example_post))
           \<and> available_functions ag (PStr ''google_search_api'')
               = Some (DTool (google_search_api example_post))
           \<and> available_functions ag (PStr ''weather_info'') = None)
   \<and> fst (Agent_init (Some ''Travel Itinerary Planner'') None None (Some [1]) default_model
           (snd (Agent_init (Some ''Travel Recommendation Specialist'') None None (Some [0, 1])
                   default_model example_heap)))
       = Inr example_agent"
proof -
  let ?i = "Agent_init (Some ''Travel Recommendation Specialist'') None None (Some [0, 1])
              default_model example_heap"
  have v: "\<forall>a\<in>set [0, 1::nat]. a < next_free example_heap" by (simp add: example_heap_def)
  have i: "?i = (fst ?i, snd ?i)" by simp
  have c: "cells example_heap 0 = map_search_descriptor example_post"
          "cells example_heap (Suc 0) = google_search_descriptor example_post"
    by (simp_all add: example_heap_def)
  have n: "(0::nat) < next_free example_heap" "Suc 0 < next_free example_heap"
    by (simp_all add: example_heap_def)
  have dn: "descriptor_name (map_search_descriptor example_post) = Some (PStr ''map_search_api'')"
           "descriptor_name (google_search_descriptor example_post) = Some (PStr ''google_search_api'')"
    using map_descriptor_parts(2)[of example_post] google_descriptor_parts(2)[of example_post]
    by (simp_all add: schema_name_descriptor)
  have dt: "descriptor_tool (map_search_descriptor example_post) = Some (DTool (map_search_api example_post))"
           "descriptor_tool (google_search_descriptor example_post)
              = Some (DTool (google_search_api example_post))"
    using map_descriptor_parts(1)[of example_post] google_descriptor_parts(1)[of example_post]
    by (simp_all add: descriptor_tool_def dict_get_def)
  from Agent_init_spec[OF v i] obtain ag where ag: "fst ?i = Inr ag"
    by (auto simp: c map_descriptor_parts google_descriptor_parts)
  note t = Agent_init_keeps_descriptors[OF v i]
  from t n c have f: "cells (snd ?i) 0 = map_search_descriptor example_post"
                     "cells (snd ?i) 1 = google_search_descriptor example_post"
    by auto
  from t[of _ _ _ default_model] ag
  have tl: "tools ag = [schema_only (map_search_descriptor example_post),
                        schema_only (google_search_descriptor example_post)]"
    and tb: "\<And>k. available_functions ag k =
                (case last_named (map (cells example_heap) [0, 1]) k of
                   None \<Rightarrow> None
                 | Some d \<Rightarrow> descriptor_tool d)"
    by (auto simp: c schema_only_def)
  have a1: "available_functions ag (PStr ''map_search_api'') = Some (DTool (map_search_api example_post))"
    and a2: "available_functions ag (PStr ''google_search_api'') = Some (DTool (google_search_api example_post))"
    and a3: "available_functions ag (PStr ''weather_info'') = None"
    by (simp_all add: tb last_named_def c dn dt)
  have v1: "\<forall>a\<in>set [1::nat]. a < next_free (snd ?i)"
    using Agent_init_spec[OF v i] n by auto
  let ?p = "Agent_init (Some ''Travel Itinerary Planner'') None None (Some [1]) default_model (snd ?i)"
  have p: "?p = (fst ?p, snd ?p)" by simp
  from Agent_init_spec[OF v1 p] f
  have pl: "fst ?p = Inr example_agent"
    by (simp add: google_descriptor_parts example_agent_def schema_only_def)
  from f ag tl a1 a2 a3 pl show ?thesis by simp
qed

section \<open>The session\<close>

lemma Agent_init_no_tools:
  "Agent_init r g b None m h =
     (Inr \<lparr>model = m, role = r, goal = g, backstory = b, tools = [], messages = [],
           available_functions = Map.empty\<rparr>, h)"
  by (simp add: Agent_init_def)

lemma Session_init_dict:
  "Session_init uuid oid sid d = (Inr s, d1) \<Longrightarrow> \<exists>doc. session_doc s = PDict doc"
  by (auto simp: Session_init_def Let_def split: option.splits sum.splits prod.splits)

lemma Session_getitem_dict: "session_doc s = PDict doc \<Longrightarrow> Session_getitem s item = Inr PNone"
  by (simp add: Session_getitem_def)

lemma Advisor_init_builds:
  assumes s: "Session_init uuid oid sid d = (Inr s, d1)"
  shows "\<exists>h'. Advisor_init P post uuid oid sid d h
                = (Inr (initial_advisor P post s (next_free h) (Suc (next_free h))), d1, h')
           \<and> cells h' (next_free h) = map_search_descriptor post
           \<and> cells h' (Suc (next_free h)) = google_search_descriptor post"
proof -
  define m where "m = next_free h"
  define g where "g = Suc (next_free h)"
  define h1 where "h1 = h\<lparr>cells := (cells h)(m := map_search_descriptor post), next_free := Suc (next_free h)\<rparr>"
  define h2 where "h2 = h\<lparr>cells := (cells h)(m := map_search_descriptor post, g := google_search_descriptor post),
                          next_free := Suc (Suc (next_free h))\<rparr>"
  have al: "alloc (map_search_descriptor post) h = (m, h1)"
       "alloc (google_search_descriptor post) h1 = (g, h2)"
    by (simp_all add: alloc_def m_def g_def h1_def h2_def)
  have c2: "cells h2 m = map_search_descriptor post" "cells h2 g = google_search_descriptor post"
    and n2: "next_free h2 = Suc (Suc (next_free h))"
    by (simp_all add: h2_def m_def g_def)
  let ?r2 = "Some ''Travel Recommendation Specialist''"
  let ?g2 = "Some ''Generate personalized, multi-option travel recommendations based on user context and preferences''"
  let ?b2 = "Some (dedent P recommender_backstory)"
  let ?r3 = "Some ''Travel Itinerary Planner''"
  let ?g3 = "Some ''Create comprehensive, day-by-day travel plans by organizing all selected options into a structured, detailed itinerary''"
  let ?b3 = "Some (dedent P planner_backstory)"
  obtain res2 h4 where i2: "Agent_init ?r2 ?g2 ?b2 (Some [m, g]) default_model h2 = (res2, h4)"
    by (cases "Agent_init ?r2 ?g2 ?b2 (Some [m, g]) default_model h2")
  have v2: "\<forall>a\<in>set [m, g]. a < next_free h2" by (simp add: n2 m_def g_def)
  note sp2 = Agent_init_spec[OF v2 i2]
  from sp2 have a2: "res2 = Inr (recommender_agent (initial_advisor P post s m g))"
    by (simp add: c2 google_descriptor_parts map_descriptor_parts initial_advisor_def schema_only_def)
  from sp2 have c4: "cells h4 m = map_search_descriptor post" "cells h4 g = google_search_descriptor post"
    and n4: "next_free h2 \<le> next_free h4"
    using c2 n2 by (auto simp: m_def g_def)
  obtain res3 h5 where i3: "Agent_init ?r3 ?g3 ?b3 (Some [g]) default_model h4 = (res3, h5)"
    by (cases "Agent_init ?r3 ?g3 ?b3 (Some [g]) default_model h4")
  have v3: "\<forall>a\<in>set [g]. a < next_free h4" using n4 n2 by (simp add: g_def)
  note sp3 = Agent_init_spec[OF v3 i3]
  from sp3 have a3: "res3 = Inr (planner_agent (initial_advisor P post s m g))"
    by (simp add: c4 google_descriptor_parts initial_advisor_def schema_only_def)
  from sp3 have c5: "cells h5 m = map_search_descriptor post" "cells h5 g = google_search_descriptor post"
    using c4 n4 n2 by (auto simp: m_def g_def)
  from Session_init_dict[OF s] obtain doc where doc: "session_doc s = PDict doc" by blast
  have gi: "\<And>item. Session_getitem s item = Inr PNone" using doc by (simp add: Session_getitem_def)
  have "Advisor_init P post uuid oid sid d h = (Inr (initial_advisor P post s m g), d1, h5)"
    unfolding Advisor_init_def
    by (simp add: s al Agent_init_no_tools i2 a2 i3 a3 gi) (simp add: initial_advisor_def)
  with c5 show ?thesis unfolding m_def g_def by blast
qed






text \<open>
  \<open>Session.update\<close> never writes: the call of \<open>update_one\<close> lacks its \<open>update\<close>
  argument, so it raises and neither the store nor \<open>self.session\<close> changes.
\<close>

theorem Session_update_raises:
  "Session_update s d = (Inl (case failure d of None \<Rightarrow> TypeError | Some e \<Rightarrow> e), s, d)"
  by (simp add: Session_update_def update_one_def split: option.splits)

text \<open>
  C8 fails on the code: a session whose in-memory context was changed calls \<open>update\<close>;
  the call raises TypeError and the stored document still carries the old context.
\<close>

theorem Session_update_not_persisted:
  "Session_update
     \<lparr>session_id = ''s1'',
      session_doc = PDict (dict_set ''context'' (PStr ''beach in December'') stored_session)\<rparr>
     example_db
   = (Inl TypeError,
      \<lparr>session_id = ''s1'',
       session_doc = PDict (dict_set ''context'' (PStr ''beach in December'') stored_session)\<rparr>,
      example_db)
   \<and> find_next (PStr ''s1'') (sessions example_db) = Inr stored_session
   \<and> dict_get stored_session ''context'' = Some (PStr ''beach'')"
  by (simp add: Session_update_def update_one_def example_db_def find_next_def matches_def
        stored_session_def dict_get_def)

text \<open>
  C9: \<open>Session.__getitem__\<close> never returns anything but \<open>None\<close>; on every constructed
  session it returns \<open>None\<close> for every key; and every advisor that \<open>Advisor.__init__\<close>
  constructs has \<open>None\<close> as its context and as its options.
\<close>

theorem Session_getitem_None:
  "(\<forall>v. Session_getitem s item = Inr v \<longrightarrow> v = PNone)
   \<and> (Session_init uuid oid sid d = (Inr s, d1) \<longrightarrow> Session_getitem s item = Inr PNone)
   \<and> (Advisor_init P post uuid oid sid d h = (Inr adv, d2, h2) \<longrightarrow>
        adv_context adv = PNone \<and> adv_options adv = PNone)"
proof -
  have 1: "\<forall>v. Session_getitem s item = Inr v \<longrightarrow> v = PNone"
    by (auto simp: Session_getitem_def Let_def split: pyobj.splits)
  have 2: "Session_init uuid oid sid d = (Inr s, d1) \<longrightarrow> Session_getitem s item = Inr PNone"
    using Session_init_dict Session_getitem_dict by blast
  have 3: "Advisor_init P post uuid oid sid d h = (Inr adv, d2, h2) \<longrightarrow>
        adv_context adv = PNone \<and> adv_options adv = PNone"
  proof
    assume a: "Advisor_init P post uuid oid sid d h = (Inr adv, d2, h2)"
    obtain r d' where s: "Session_init uuid oid sid d = (r, d')" by (cases "Session_init uuid oid sid d")
    show "adv_context adv = PNone \<and> adv_options adv = PNone"
    proof (cases r)
      case (Inl e)
      with a s show ?thesis by (simp add: Advisor_init_def)
    next
      case (Inr s')
      from Advisor_init_builds[OF s[unfolded Inr], of P post h] a show ?thesis
        by (auto simp: initial_advisor_def)
    qed
  qed
  from 1 2 3 show ?thesis by blast
qed

theorem Session_getitem_None_witness:
  "dict_get stored_session ''context'' = Some (PStr ''beach'')
   \<and> Session_getitem \<lparr>session_id = ''s1'', session_doc = PDict stored_session\<rparr> ''context'' = Inr PNone
   \<and> (case fst (Advisor_init example_prompts example_post ''u-2'' (PStr ''oid2'') (Some ''s1'')
                  example_db example_heap) of
         Inl e \<Rightarrow> False
       | Inr adv \<Rightarrow> adv_context adv = PNone \<and> adv_options adv = PNone)"
proof -
  let ?s = "\<lparr>session_id = ''s1'', session_doc = PDict stored_session\<rparr>"
  let ?a = "Advisor_init example_prompts example_post ''u-2'' (PStr ''oid2'') (Some ''s1'') example_db example_heap"
  have si: "Session_init ''u-2'' (PStr ''oid2'') (Some ''s1'') example_db = (Inr ?s, example_db)"
    by (simp add: Session_init_def example_db_def find_next_def matches_def stored_session_def dict_get_def Let_def)
  from Advisor_init_builds[OF si, of example_prompts example_post example_heap]
  obtain adv h' where a: "?a = (Inr adv, example_db, h')" by blast
  from Session_getitem_None[of ?s "''context''" "''u-2''" "PStr ''oid2''" "Some ''s1''" example_db example_db
         example_prompts example_post example_heap adv example_db h'] si a
  show ?thesis by (simp add: stored_session_def dict_get_def)
qed

section \<open>A chat turn\<close>

lemma dict_get_set: "dict_get (dict_set k v d) k' = (if k' = k then Some v else dict_get d k')"
  by (induction d) (auto simp: dict_get_def)

lemma subscript_store:
  "store_item x k v = Inr y \<Longrightarrow> k' \<noteq> k \<Longrightarrow> subscript y k' = subscript x k'"
  by (auto simp: store_item_def subscript_def dict_get_set split: pyobj.splits)

lemma context_analyze_props:
  "adv_options (turn_advisor (context_analyze P loads adv a q w)) = adv_options adv"
  "adv_session (turn_advisor (context_analyze P loads adv a q w)) = adv_session adv"
  "turn_result (context_analyze P loads adv a q w) = Inr out \<Longrightarrow>
     subscript out ''user_context'' = Inr (adv_context (turn_advisor (context_analyze P loads adv a q w)))"
  by (auto simp: context_analyze_def Let_def split: sum.splits)

lemma recommendation_props:
  "adv_options (turn_advisor (recommendation P loads adv w)) = adv_options adv"
  "adv_session (turn_advisor (recommendation P loads adv w)) = adv_session adv"
  "adv_context (turn_advisor (recommendation P loads adv w)) = adv_context adv"
  by (simp_all add: recommendation_def Let_def)

lemma planning_props:
  "adv_options (turn_advisor (planning P loads adv w)) = adv_options adv"
  "adv_session (turn_advisor (planning P loads adv w)) = adv_session adv"
  "adv_context (turn_advisor (planning P loads adv w)) = adv_context adv"
  by (simp_all add: planning_def Let_def)

text \<open>The turn after the options step gave \<open>os\<close>.\<close>

lemma chat_unfold:
  assumes "(case opts of None \<Rightarrow> Inr (adv_options adv0) | Some ys \<Rightarrow> iadd (adv_options adv0) ys) = Inr os"
  shows "chat P loads adv0 answer question opts w =
     (let adv = adv0\<lparr>adv_options := os\<rparr>;
          t1 = context_analyze P loads adv answer question w in
      case turn_result t1 of
        Inl e \<Rightarrow> t1
      | Inr output \<Rightarrow>
          (let t2 = recommendation P loads (turn_advisor t1) (turn_api t1);
               tr2 = turn_trace t1 @ turn_trace t2 in
           case turn_result t2 of
             Inl e \<Rightarrow> t2\<lparr>turn_trace := tr2\<rparr>
           | Inr r \<Rightarrow>
               (case store_item output ''recommendation'' r of
                  Inl e \<Rightarrow> t2\<lparr>turn_result := Inl e, turn_trace := tr2\<rparr>
                | Inr output1 \<Rightarrow>
                    (let t3 = planning P loads (turn_advisor t2) (turn_api t2);
                         tr3 = tr2 @ turn_trace t3 in
                     case turn_result t3 of
                       Inl e \<Rightarrow> t3\<lparr>turn_result := Inr output1, turn_trace := tr3\<rparr>
                     | Inr p \<Rightarrow>
                         (case store_item output1 ''planning'' p of
                            Inl e \<Rightarrow> t3\<lparr>turn_result := Inr output1, turn_trace := tr3\<rparr>
                          | Inr output2 \<Rightarrow> t3\<lparr>turn_result := Inr output2, turn_trace := tr3\<rparr>)))))"
  using assms unfolding chat_def by simp

lemma chat_after_options:
  assumes os: "(case opts of None \<Rightarrow> Inr (adv_options adv0) | Some ys \<Rightarrow> iadd (adv_options adv0) ys) = Inr os"
  shows "adv_options (turn_advisor (chat P loads adv0 answer question opts w)) = os"
    and "adv_session (turn_advisor (chat P loads adv0 answer question opts w)) = adv_session adv0"
    and "turn_result (chat P loads adv0 answer question opts w) = Inr out \<Longrightarrow>
           subscript out ''user_context''
             = Inr (adv_context (turn_advisor (chat P loads adv0 answer question opts w)))"
proof -
  let ?adv = "adv0\<lparr>adv_options := os\<rparr>"
  let ?t1 = "context_analyze P loads ?adv answer question w"
  let ?t2 = "recommendation P loads (turn_advisor ?t1) (turn_api ?t1)"
  let ?t3 = "planning P loads (turn_advisor ?t2) (turn_api ?t2)"
  note u = chat_unfold[OF os, of P loads answer question w]
  have o1: "adv_options (turn_advisor ?t1) = os" "adv_session (turn_advisor ?t1) = adv_session adv0"
    by (simp_all add: context_analyze_props)
  have o2: "adv_options (turn_advisor ?t2) = os" "adv_session (turn_advisor ?t2) = adv_session adv0"
           "adv_context (turn_advisor ?t2) = adv_context (turn_advisor ?t1)"
    by (simp_all add: recommendation_props o1)
  have o3: "adv_options (turn_advisor ?t3) = os" "adv_session (turn_advisor ?t3) = adv_session adv0"
           "adv_context (turn_advisor ?t3) = adv_context (turn_advisor ?t1)"
    by (simp_all add: planning_props o2)
  show "adv_options (turn_advisor (chat P loads adv0 answer question opts w)) = os"
    unfolding u Let_def using o1 o2 o3 by (simp split: sum.splits)
  show "adv_session (turn_advisor (chat P loads adv0 answer question opts w)) = adv_session adv0"
    unfolding u Let_def using o1 o2 o3 by (simp split: sum.splits)
  assume r: "turn_result (chat P loads adv0 answer question opts w) = Inr out"
  show "subscript out ''user_context''
             = Inr (adv_context (turn_advisor (chat P loads adv0 answer question opts w)))"
  proof (cases "turn_result ?t1")
    case (Inl e)
    with r u show ?thesis by (simp add: Let_def)
  next
    case (Inr out0)
    note c1 = context_analyze_props(3)[OF Inr]
    show ?thesis
    proof (cases "turn_result ?t2")
      case (Inl e)
      with r u Inr show ?thesis by (simp add: Let_def)
    next
      case (Inr rr) note t2 = this
      show ?thesis
      proof (cases "store_item out0 ''recommendation'' rr")
        case (Inl e)
        with r u \<open>turn_result ?t1 = Inr out0\<close> t2 show ?thesis by (simp add: Let_def)
      next
        case (Inr output1) note s1 = this
        have c2: "subscript output1 ''user_context'' = Inr (adv_context (turn_advisor ?t1))"
          using subscript_store[OF s1, of "''user_context''"] c1 by simp
        show ?thesis
        proof (cases "turn_result ?t3")
          case (Inl e)
          with r u \<open>turn_result ?t1 = Inr out0\<close> t2 s1 c2 o3 show ?thesis by (simp add: Let_def)
        next
          case (Inr p) note t3 = this
          show ?thesis
          proof (cases "store_item output1 ''planning'' p")
            case (Inl e)
            with r u \<open>turn_result ?t1 = Inr out0\<close> t2 s1 t3 c2 o3 show ?thesis by (simp add: Let_def)
          next
            case (Inr output2)
            have c3: "subscript output2 ''user_context'' = Inr (adv_context (turn_advisor ?t1))"
              using subscript_store[OF Inr, of "''user_context''"] c2 by simp
            from r u \<open>turn_result ?t1 = Inr out0\<close> t2 s1 t3 Inr c3 o3 show ?thesis
              by (simp add: Let_def)
          qed
        qed
      qed
    qed
  qed
qed

lemmas chat_defs = chat_def context_analyze_def recommendation_def planning_def
  context_description_def recommendation_description_def planning_description_def
  subscript_def store_item_def iadd_def task_def prepare_def create_system_prompt_def
  user_message_def complete_def finish_def first_request_def second_request_def Let_def

lemmas chat_example_defs = example_advisor_def initial_advisor_def example_prompts_def
  turn_replies_def reply_def example_loads_def city_json_def planned_json_def
  beach_json_def query_json_def dq_def dict_get_def

text \<open>
  C5, as stated, fails: the context is replaced every turn. After a first turn the
  context is \<open>beach\<close>, after a second it is \<open>city\<close>, of which \<open>beach\<close> is neither
  a prefix nor an element.
\<close>

theorem chat_appends_options_replaces_context_counterexample:
  "adv_context (turn_advisor
     (chat example_prompts example_loads example_advisor ''beach vacation'' ''Hello'' None
        (turn_replies beach_json ''{}'' ''{}''))) = PStr ''beach''
   \<and> adv_context (turn_advisor
     (chat example_prompts example_loads
        (turn_advisor (chat example_prompts example_loads example_advisor ''beach vacation'' ''Hello'' None
           (turn_replies beach_json ''{}'' ''{}'')))
        ''a city instead'' ''When'' None (turn_replies city_json ''{}'' ''{}''))) = PStr ''city''
   \<and> \<not> extends (PStr ''beach'') (PStr ''city'')"
  by (simp add: chat_defs chat_example_defs extends_def is_prefix_def)

text \<open>
  C5, amended: after every call of \<open>Advisor.chat\<close> the prior options are a prefix of
  the new options: a call without options leaves them as they are, a call with options
  that returns has appended them to the prior list, and a call with options on an advisor
  whose options are not a list raises TypeError and changes nothing. The session the
  advisor holds is never written by a turn. The context is replaced, not appended to: after
  a turn that returns it is the \<open>user_context\<close> of the returned analysis.
\<close>

theorem chat_appends_options_replaces_context:
  "let t = chat P loads adv0 answer question opts w in
     extends (adv_options adv0) (adv_options (turn_advisor t))
     \<and> (opts = None \<longrightarrow> adv_options (turn_advisor t) = adv_options adv0)
     \<and> (\<forall>ys out. opts = Some ys \<and> turn_result t = Inr out \<longrightarrow>
          (\<exists>xs. adv_options adv0 = PList xs \<and> adv_options (turn_advisor t) = PList (xs @ ys)))
     \<and> (\<forall>ys. opts = Some ys \<and> (\<forall>xs. adv_options adv0 \<noteq> PList xs) \<longrightarrow>
          turn_result t = Inl TypeError \<and> turn_advisor t = adv0)
     \<and> adv_session (turn_advisor t) = adv_session adv0
     \<and> (\<forall>out. turn_result t = Inr out \<longrightarrow>
          subscript out ''user_context'' = Inr (adv_context (turn_advisor t)))"
proof (cases "case opts of None \<Rightarrow> Inr (adv_options adv0) | Some ys \<Rightarrow> iadd (adv_options adv0) ys")
  case (Inl e)
  then obtain ys where ys: "opts = Some ys" and nl: "\<forall>xs. adv_options adv0 \<noteq> PList xs" and e: "e = TypeError"
    by (auto simp: iadd_def split: option.splits pyobj.splits)
  from Inl have "chat P loads adv0 answer question opts w
      = \<lparr>turn_result = Inl e, turn_advisor = adv0, turn_api = w, turn_trace = []\<rparr>"
    by (simp add: chat_def)
  with ys nl e show ?thesis by (simp add: Let_def extends_def)
next
  case (Inr os)
  note p = chat_after_options[OF Inr, of P loads answer question w]
  have ex: "extends (adv_options adv0) os"
    using Inr by (auto simp: extends_def iadd_def is_prefix_def split: option.splits pyobj.splits)
  have a: "opts = None \<longrightarrow> os = adv_options adv0" using Inr by auto
  have b: "\<forall>ys. opts = Some ys \<longrightarrow> (\<exists>xs. adv_options adv0 = PList xs \<and> os = PList (xs @ ys))"
    using Inr by (auto simp: iadd_def split: pyobj.splits)
  have c: "\<forall>ys. opts = Some ys \<and> (\<forall>xs. adv_options adv0 \<noteq> PList xs) \<longrightarrow> False"
    using Inr by (auto simp: iadd_def split: pyobj.splits)
  from p ex a b c show ?thesis unfolding Let_def by blast
qed

theorem chat_appends_options_replaces_context_witness:
  "adv_options (turn_advisor
     (chat example_prompts example_loads (example_advisor\<lparr>adv_options := PList [PStr ''Bali'']\<rparr>)
        ''beach vacation'' ''Hello'' (Some [PStr ''Hotel A''])
        (turn_replies beach_json ''{}'' ''{}''))) = PList [PStr ''Bali'', PStr ''Hotel A'']
   \<and> turn_result
     (chat example_prompts example_loads example_advisor
        ''beach vacation'' ''Hello'' (Some [PStr ''Hotel A''])
        (turn_replies beach_json ''{}'' ''{}'')) = Inl TypeError"
proof -
  let ?adv = "example_advisor\<lparr>adv_options := PList [PStr ''Bali'']\<rparr>"
  let ?w = "turn_replies beach_json ''{}'' ''{}''"
  let ?t = "chat example_prompts example_loads ?adv ''beach vacation'' ''Hello'' (Some [PStr ''Hotel A'']) ?w"
  have r: "turn_result ?t = Inr (PDict [(''user_context'', PStr ''beach''), (''following_question'', PStr ''When''),
                                        (''recommendation'', PDict []), (''planning'', PDict [])])"
    by (simp add: chat_defs chat_example_defs)
  have o: "adv_options ?adv = PList [PStr ''Bali'']" by simp
  have n: "\<forall>xs. adv_options example_advisor \<noteq> PList xs"
    by (simp add: example_advisor_def initial_advisor_def)
  from chat_appends_options_replaces_context[of example_prompts example_loads ?adv "''beach vacation''" "''Hello''"
         "Some [PStr ''Hotel A'']" ?w]
       chat_appends_options_replaces_context[of example_prompts example_loads example_advisor "''beach vacation''"
         "''Hello''" "Some [PStr ''Hotel A'']" ?w]
       r o n
  show ?thesis unfolding Let_def by auto
qed

text \<open>
  C6, as stated, fails in its last part: when the analysis output itself carries a
  \<open>planning\<close> key, the dict returned after a failed planning stage has that key.
\<close>

theorem planning_failure_swallowed_counterexample:
  "turn_result (chat example_prompts example_loads example_advisor ''beach vacation'' ''Hello'' None
         (turn_replies planned_json ''{}'' ''{''))
     = Inr (PDict [(''user_context'', PStr ''beach''), (''planning'', PStr ''none''),
                   (''recommendation'', PDict [])])
   \<and> example_loads ''{'' = None
   \<and> subscript (PDict [(''user_context'', PStr ''beach''), (''planning'', PStr ''none''),
                        (''recommendation'', PDict [])]) ''planning'' = Inr (PStr ''none'')"
  by (simp add: chat_defs chat_example_defs)

text \<open>
  C6, amended: when the options step, the context analysis and the recommendation of a
  turn succeed and the planning stage raises, \<open>Advisor.chat\<close> still returns: the result
  is the analysis output with \<open>recommendation\<close> set to the recommender's result and
  every other key as the analysis gave it; \<open>chat\<close> adds no \<open>planning\<close> key, so the
  result has one only if the analysis output had.
\<close>

theorem planning_failure_swallowed:
  assumes "(case opts of None \<Rightarrow> Inr (adv_options adv0) | Some ys \<Rightarrow> iadd (adv_options adv0) ys) = Inr os"
    and "t1 = context_analyze P loads (adv0\<lparr>adv_options := os\<rparr>) answer question w"
    and "t2 = recommendation P loads (turn_advisor t1) (turn_api t1)"
    and "t3 = planning P loads (turn_advisor t2) (turn_api t2)"
    and "turn_result t1 = Inr out1"
    and "turn_result t2 = Inr r"
    and "turn_result t3 = Inl e"
  shows "\<exists>kv. out1 = PDict kv
           \<and> turn_result (chat P loads adv0 answer question opts w)
               = Inr (PDict (dict_set ''recommendation'' r kv))
           \<and> dict_get (dict_set ''recommendation'' r kv) ''recommendation'' = Some r
           \<and> (\<forall>k. k \<noteq> ''recommendation'' \<longrightarrow>
                 dict_get (dict_set ''recommendation'' r kv) k = dict_get kv k)
           \<and> dict_get (dict_set ''recommendation'' r kv) ''planning'' = dict_get kv ''planning''"
proof -
  from context_analyze_props(3)[of P loads "adv0\<lparr>adv_options := os\<rparr>" answer question w out1] assms(2,5)
  obtain kv where kv: "out1 = PDict kv"
    by (auto simp: subscript_def split: pyobj.splits)
  have st: "store_item out1 ''recommendation'' r = Inr (PDict (dict_set ''recommendation'' r kv))"
    by (simp add: store_item_def kv)
  have "turn_result (chat P loads adv0 answer question opts w)
               = Inr (PDict (dict_set ''recommendation'' r kv))"
    unfolding chat_unfold[OF assms(1)] Let_def
    using assms(2-7) st by simp
  with kv show ?thesis by (simp add: dict_get_set)
qed

theorem planning_failure_swallowed_witness:
  "turn_result (chat example_prompts example_loads example_advisor ''beach vacation'' ''Hello'' None
         (turn_replies beach_json ''{}'' ''{''))
     = Inr (PDict [(''user_context'', PStr ''beach''), (''following_question'', PStr ''When''),
                   (''recommendation'', PDict [])])"
proof -
  let ?w = "turn_replies beach_json ''{}'' ''{''"
  let ?t1 = "context_analyze example_prompts example_loads (example_advisor\<lparr>adv_options := PNone\<rparr>)
               ''beach vacation'' ''Hello'' ?w"
  let ?t2 = "recommendation example_prompts example_loads (turn_advisor ?t1) (turn_api ?t1)"
  let ?t3 = "planning example_prompts example_loads (turn_advisor ?t2) (turn_api ?t2)"
  have 0: "(case None of None \<Rightarrow> Inr (adv_options example_advisor)
            | Some ys \<Rightarrow> iadd (adv_options example_advisor) ys) = Inr PNone"
    by (simp add: example_advisor_def initial_advisor_def)
  have 1: "turn_result ?t1
             = Inr (PDict [(''user_context'', PStr ''beach''), (''following_question'', PStr ''When'')])"
    by (simp add: chat_defs chat_example_defs)
  have 2: "turn_result ?t2 = Inr (PDict [])"
    by (simp add: chat_defs chat_example_defs)
  have 3: "turn_result ?t3 = Inl JSONDecodeError"
    by (simp add: chat_defs chat_example_defs)
  from planning_failure_swallowed[OF 0 refl refl refl 1 2 3]
  show ?thesis by simp
qed

end
